theory Spec2Isabelle
  imports Complex_Main
begin

section \<open>JavaScript values shared by the layers\<close>

text \<open>
  Numbers that the gateway handles (counts, milliseconds, HTTP statuses) are integers and are
  modelled as \<open>int\<close>. A property that may be \<open>undefined\<close> or \<open>null\<close> is an
  \<open>option\<close>. Strings are byte strings; the paths, codes and names that occur here are ASCII.
\<close>

datatype jvalue =
  JString string | JNumber int | JNull | JArray "jvalue list" | JObject "(string \<times> jvalue) list"

text \<open>The upstream HTTP response as axios hands it over (\<open>status\<close>, \<open>headers\<close>, \<open>data\<close>);
  \<open>data_message\<close> is \<open>response.data?.message\<close>.\<close>

record upstream_response =
  status :: "int option"
  headers :: "(string \<times> string) list"
  data :: "string option"
  data_message :: "string option"

text \<open>
  A thrown JavaScript value. \<open>gateway\<close> holds \<open>error instanceof GatewayError\<close>;
  \<open>code\<close> is the Node/axios error code (\<open>ECONNREFUSED\<close>, \<open>ECONNABORTED\<close>, ...);
  \<open>response\<close> is axios's \<open>error.response\<close>; \<open>statusCode\<close>, \<open>errorCode\<close>, \<open>details\<close>
  and \<open>timestamp\<close> are the fields the \<open>GatewayError\<close> constructor sets; \<open>httpStatus\<close> is
  the \<open>error.status\<close> that body parsers and axios put on their errors.
\<close>

record js_error =
  gateway :: bool
  name :: string
  message :: string
  code :: "string option"
  response :: "upstream_response option"
  statusCode :: "int option"
  errorCode :: "string option"
  details :: "jvalue option"
  timestamp :: "int option"
  httpStatus :: "int option"

section \<open>utils/errorHandler.js\<close>

text \<open>\<open>new GatewayError(message, statusCode, errorCode, details)\<close>. The constructor reads the
  clock for \<open>timestamp\<close>; the reading is the last argument (epoch milliseconds, which
  \<open>toISOString\<close> only renders).\<close>

definition GatewayError ::
  "string \<Rightarrow> int \<Rightarrow> string \<Rightarrow> jvalue option \<Rightarrow> int \<Rightarrow> js_error" where
  "GatewayError msg sc ec det now =
     \<lparr> gateway = True, name = ''GatewayError'', message = msg, code = None, response = None,
       statusCode = Some sc, errorCode = Some ec, details = det, timestamp = Some now,
       httpStatus = None \<rparr>"

definition createError ::
  "string \<Rightarrow> int \<Rightarrow> string \<Rightarrow> jvalue option \<Rightarrow> int \<Rightarrow> js_error" where
  "createError msg sc ec det now = GatewayError msg sc ec det now"

text \<open>A native error thrown by the runtime (\<open>ReferenceError\<close>, \<open>TypeError\<close>): name and
  message only.\<close>

definition native_error :: "string \<Rightarrow> string \<Rightarrow> js_error" where
  "native_error n msg =
     \<lparr> gateway = False, name = n, message = msg, code = None, response = None,
       statusCode = None, errorCode = None, details = None, timestamp = None,
       httpStatus = None \<rparr>"

text \<open>JavaScript truthiness of an optional number and of an optional string.\<close>

definition truthy_num :: "int option \<Rightarrow> bool" where
  "truthy_num v = (case v of None \<Rightarrow> False | Some n \<Rightarrow> n \<noteq> 0)"

definition truthy_str :: "string option \<Rightarrow> bool" where
  "truthy_str v = (case v of None \<Rightarrow> False | Some s \<Rightarrow> s \<noteq> [])"

text \<open>\<open>a || d\<close> on an optional number and on an optional string.\<close>

definition or_num :: "int option \<Rightarrow> int \<Rightarrow> int" where
  "or_num v d = (case v of None \<Rightarrow> d | Some n \<Rightarrow> if truthy_num v then n else d)"

definition or_str :: "string option \<Rightarrow> string \<Rightarrow> string" where
  "or_str v d = (case v of None \<Rightarrow> d | Some s \<Rightarrow> if truthy_str v then s else d)"

definition mapUpstreamError :: "js_error \<Rightarrow> string \<Rightarrow> int \<Rightarrow> js_error" where
  "mapUpstreamError error serviceName now =
     (if code error = Some ''ECONNREFUSED'' then
        GatewayError (''Service '' @ serviceName @ '' is unavailable'') 503
          ''SERVICE_UNAVAILABLE''
          (Some (JObject [(''service'', JString serviceName), (''originalError'', JString (message error))])) now
      else if code error = Some ''ETIMEDOUT'' \<or> name error = ''TimeoutError'' then
        GatewayError (''Service '' @ serviceName @ '' request timed out'') 504
          ''GATEWAY_TIMEOUT''
          (Some (JObject [(''service'', JString serviceName), (''originalError'', JString (message error))])) now
      else (case response error of
        Some r \<Rightarrow>
          (let statusCode = or_num (status r) 502;
               mappedStatusCode = (if statusCode \<ge> 500 then 502 else statusCode)
           in GatewayError
                (or_str (data_message r) (''Upstream service error: '' @ message error))
                mappedStatusCode ''UPSTREAM_ERROR''
                (Some (JObject [(''service'', JString serviceName), (''upstreamStatus'', JNumber statusCode),
                       (''originalError'', JString (message error))])) now)
      | None \<Rightarrow>
          GatewayError (''Unknown error from service '' @ serviceName) 502 ''BAD_GATEWAY''
            (Some (JObject [(''service'', JString serviceName), (''originalError'', JString (message error))])) now))"

text \<open>\<open>resetTime\<close> is \<open>None\<close> for \<open>NaN\<close>, which JSON writes as \<open>null\<close>.\<close>

definition handleRateLimitError :: "int \<Rightarrow> int option \<Rightarrow> string option \<Rightarrow> int \<Rightarrow> js_error" where
  "handleRateLimitError remaining resetTime tier now =
     GatewayError ''Rate limit exceeded'' 429 ''RATE_LIMIT_EXCEEDED''
       (Some (JObject [(''remaining'', JNumber remaining),
              (''resetTime'', (case resetTime of None \<Rightarrow> JNull | Some r \<Rightarrow> JNumber r)),
              (''tier'', (case tier of None \<Rightarrow> JNull | Some t \<Rightarrow> JString t))])) now"

definition handleCircuitBreakerError :: "string \<Rightarrow> string \<Rightarrow> int \<Rightarrow> js_error" where
  "handleCircuitBreakerError serviceName st now =
     GatewayError (''Service '' @ serviceName @ '' is temporarily unavailable'') 503
       ''CIRCUIT_BREAKER_OPEN''
       (Some (JObject [(''service'', JString serviceName), (''state'', JString st),
              (''message'', JString ''Circuit breaker is open due to repeated failures'')])) now"

text \<open>What \<open>ErrorHandler.middleware()\<close> does with an error: it hands the error on
  (\<open>next(error)\<close>, when the headers are already sent) or sends a status with the JSON
  envelope. \<open>withStack\<close> says whether \<open>error.stack\<close> is attached.\<close>

record envelope =
  env_error :: "string option"
  env_message :: string
  env_details :: "jvalue option"
  env_requestId :: string
  env_timestamp :: "int option"
  withStack :: bool

datatype handled = Delegated js_error | Sent "int option" envelope

text \<open>\<open>production\<close> is \<open>process.env.NODE_ENV === 'production'\<close>; \<open>now\<close> is the clock
  reading of \<open>new Date()\<close> in the branch for errors that are no \<open>GatewayError\<close>.\<close>

definition errorMiddleware :: "bool \<Rightarrow> js_error \<Rightarrow> string \<Rightarrow> bool \<Rightarrow> int \<Rightarrow> handled" where
  "errorMiddleware production error requestId headersSent now =
     (if headersSent then Delegated error
      else if gateway error then
        Sent (statusCode error)
          \<lparr> env_error = errorCode error, env_message = message error,
            env_details = details error, env_requestId = requestId,
            env_timestamp = timestamp error, withStack = False \<rparr>
      else
        Sent (Some (if truthy_num (statusCode error) then or_num (statusCode error) 500
                    else or_num (httpStatus error) 500))
          \<lparr> env_error = Some ''INTERNAL_SERVER_ERROR'',
            env_message = (if production then ''An internal server error occurred''
                           else message error),
            env_details = None, env_requestId = requestId,
            env_timestamp = Some now, withStack = \<not> production \<rparr>)"

section \<open>layers/forwarding.js: the circuit breaker\<close>

datatype circuit_state = CLOSED | OPEN | HALF_OPEN

definition CIRCUIT_STATES :: "circuit_state \<Rightarrow> string" where
  "CIRCUIT_STATES s = (case s of CLOSED \<Rightarrow> ''closed'' | OPEN \<Rightarrow> ''open'' | HALF_OPEN \<Rightarrow> ''half-open'')"

record circuit_breaker =
  serviceName :: string
  failureThreshold :: int
  recoveryTimeout :: int
  monitorTimeout :: int
  state :: circuit_state
  failureCount :: int
  lastFailureTime :: "int option"
  nextAttempt :: "int option"
  successCount :: int

text \<open>\<open>config.circuitBreaker\<close>: three numbers read from the environment (defaults 5, 30000
  and 2000).\<close>

record breaker_config =
  cfg_failureThreshold :: int
  cfg_recoveryTimeout :: int
  cfg_monitorTimeout :: int

text \<open>The constructor; the three options may be absent, and a zero option falls back to the
  configuration as well (\<open>||\<close>).\<close>

definition new_CircuitBreaker ::
  "breaker_config \<Rightarrow> string \<Rightarrow> int option \<Rightarrow> int option \<Rightarrow> int option \<Rightarrow> circuit_breaker" where
  "new_CircuitBreaker cfg svc optThreshold optRecovery optMonitor =
     \<lparr> serviceName = svc,
       failureThreshold = or_num optThreshold (cfg_failureThreshold cfg),
       recoveryTimeout = or_num optRecovery (cfg_recoveryTimeout cfg),
       monitorTimeout = or_num optMonitor (cfg_monitorTimeout cfg),
       state = CLOSED, failureCount = 0, lastFailureTime = None, nextAttempt = None,
       successCount = 0 \<rparr>"

definition onSuccess :: "circuit_breaker \<Rightarrow> circuit_breaker" where
  "onSuccess cb =
     (let cb1 = cb\<lparr>failureCount := 0\<rparr> in
      if state cb1 = HALF_OPEN then
        (let cb2 = cb1\<lparr>successCount := successCount cb1 + 1\<rparr> in
         if successCount cb2 \<ge> 3 then cb2\<lparr>state := CLOSED\<rparr> else cb2)
      else cb1)"

text \<open>\<open>onFailure\<close> reads the clock for \<open>lastFailureTime\<close> and again for \<open>nextAttempt\<close>;
  no \<open>await\<close> stands between the reads, and both are the one reading \<open>now\<close>.\<close>

definition onFailure :: "circuit_breaker \<Rightarrow> int \<Rightarrow> circuit_breaker" where
  "onFailure cb now =
     (let cb1 = cb\<lparr>failureCount := failureCount cb + 1, lastFailureTime := Some now\<rparr> in
      if state cb1 = HALF_OPEN then
        cb1\<lparr>state := OPEN, nextAttempt := Some (now + recoveryTimeout cb1)\<rparr>
      else if failureCount cb1 \<ge> failureThreshold cb1 then
        cb1\<lparr>state := OPEN, nextAttempt := Some (now + recoveryTimeout cb1)\<rparr>
      else cb1)"

definition reset :: "circuit_breaker \<Rightarrow> circuit_breaker" where
  "reset cb = cb\<lparr>state := CLOSED, failureCount := 0, lastFailureTime := None,
                 nextAttempt := None, successCount := 0\<rparr>"

text \<open>
  \<open>execute\<close> runs on a world \<open>'w\<close>: everything outside the breaker that the wrapped
  call can touch. \<open>clock w\<close> is what \<open>Date.now()\<close> returns in that world, and the wrapped
  \<open>requestFn\<close> takes the world to its outcome (\<open>Inl\<close> a thrown error, \<open>Inr\<close> the
  result) and a new world. A world that comes back unchanged under every \<open>requestFn\<close> means
  that the call was not made. In \<open>Date.now() < this.nextAttempt\<close> a \<open>null\<close> compares
  as 0.
\<close>

text \<open>The \<open>try\<close>/\<open>catch\<close> of \<open>execute\<close>: the wrapped call, then \<open>onSuccess\<close> or
  \<open>onFailure\<close> (which reads the clock after the call) and the rethrow.\<close>

definition attempt_call ::
  "('w \<Rightarrow> int) \<Rightarrow> circuit_breaker \<Rightarrow> ('w \<Rightarrow> (js_error + 'a) \<times> 'w) \<Rightarrow> 'w
     \<Rightarrow> (js_error + 'a) \<times> circuit_breaker \<times> 'w" where
  "attempt_call clock cb requestFn w =
     (case requestFn w of
        (Inr result, w1) \<Rightarrow> (Inr result, onSuccess cb, w1)
      | (Inl error, w1) \<Rightarrow> (Inl error, onFailure cb (clock w1), w1))"

definition execute ::
  "('w \<Rightarrow> int) \<Rightarrow> circuit_breaker \<Rightarrow> ('w \<Rightarrow> (js_error + 'a) \<times> 'w) \<Rightarrow> 'w
     \<Rightarrow> (js_error + 'a) \<times> circuit_breaker \<times> 'w" where
  "execute clock cb requestFn w =
     (if state cb = OPEN then
        (if clock w < (case nextAttempt cb of None \<Rightarrow> 0 | Some t \<Rightarrow> t) then
           (Inl (handleCircuitBreakerError (serviceName cb) (CIRCUIT_STATES (state cb)) (clock w)),
            cb, w)
         else attempt_call clock (cb\<lparr>state := HALF_OPEN, successCount := 0\<rparr>) requestFn w)
      else attempt_call clock cb requestFn w)"


section \<open>layers/forwarding.js: the forwarding layer\<close>

text \<open>The inbound request, as far as the layers read it. \<open>http_method\<close> is
  \<open>req.method\<close>, \<open>user\<close> is
  \<open>req.context.user\<close>, \<open>clientIp\<close> is \<open>req.context.clientIp\<close>.\<close>

record user_context =
  id :: string
  user_tier :: "string option"

record request =
  requestId :: string
  http_method :: string
  path :: string
  query :: "(string \<times> string) list"
  user :: "user_context option"
  clientIp :: string

text \<open>The client response object: whether the headers have gone out, and the status, the
  \<open>setHeader\<close> calls in order, and the body written so far.\<close>

record client_response =
  headersSent :: bool
  res_status :: "int option"
  res_headers :: "(string \<times> string) list"
  res_body :: "string option"

text \<open>A route after normalization (\<open>RoutingLayer.initializeRoutes\<close>), and the route context
  that the routing middleware attaches to the request (\<open>req.context.route\<close>).\<close>

record route =
  route_path :: string
  target :: string
  timeout :: int
  retries :: int
  authRequired :: bool
  rateLimitTier :: string
  methods :: "string list"
  stripPath :: bool
  preserveHost :: bool
  changeOrigin :: bool

record route_context = route +
  targetUrl :: string
  params :: "(string \<times> string option) list"

text \<open>
  The world of the forwarding layer. \<open>now\<close> is the clock (\<open>Date.now()\<close>). The upstream
  is a script: \<open>upstream k\<close> is how the \<open>k\<close>-th axios call ends (\<open>Inl\<close> the error axios
  rejects with, \<open>Inr\<close> the response it resolves with) and how many milliseconds it takes;
  \<open>calls\<close> counts the calls made. \<open>random k\<close> is the \<open>k\<close>-th value of
  \<open>Math.random()\<close>, \<open>draws\<close> counts the values drawn, and \<open>timers\<close> lists the
  delays handed to \<open>setTimeout\<close>, the latest first.
\<close>

record world =
  now :: int
  upstream :: "nat \<Rightarrow> (js_error + upstream_response) \<times> int"
  calls :: nat
  random :: "nat \<Rightarrow> real"
  draws :: nat
  timers :: "real list"

definition axiosInstance :: "world \<Rightarrow> (js_error + upstream_response) \<times> world" where
  "axiosInstance w =
     (case upstream w (calls w) of
        (outcome, ms) \<Rightarrow> (outcome, w\<lparr>calls := calls w + 1, now := now w + ms\<rparr>))"

text \<open>\<open>makeRequest\<close>: the request configuration (method, URL, timeout, headers, body, query)
  only decides what the upstream sees, which the script stands for; what remains is the
  \<open>try\<close>/\<open>catch\<close> around the axios call. The first argument is \<open>extractServiceName\<close>,
  which rests on the platform's URL parser.\<close>

definition makeRequest ::
  "(string \<Rightarrow> string) \<Rightarrow> request \<Rightarrow> route_context \<Rightarrow> world
     \<Rightarrow> (js_error + upstream_response) \<times> world" where
  "makeRequest extractServiceName req rt w =
     (case axiosInstance w of
        (Inr resp, w1) \<Rightarrow> (Inr resp, w1)
      | (Inl error, w1) \<Rightarrow>
          if code error = Some ''ECONNABORTED'' then
            (Inl (createError ''Request timeout'' 504 ''GATEWAY_TIMEOUT''
                    (Some (JObject [(''timeout'', JNumber (timeout rt)),
                           (''service'', JString (extractServiceName (target rt)))]))
                    (now w1)), w1)
          else (Inl error, w1))"

text \<open>\<open>toLowerCase\<close> on ASCII: a letter from A to Z gets bit 5 set.\<close>

definition lower_char :: "char \<Rightarrow> char" where
  "lower_char c =
     (if 65 \<le> (of_char c :: nat) \<and> (of_char c :: nat) \<le> 90 then
        (case c of Char b0 b1 b2 b3 b4 b5 b6 b7 \<Rightarrow> Char b0 b1 b2 b3 b4 True b6 b7)
      else c)"

definition toLowerCase :: "string \<Rightarrow> string" where
  "toLowerCase s = map lower_char s"

definition hopByHopHeaders :: "string list" where
  "hopByHopHeaders = [''connection'', ''keep-alive'', ''proxy-authenticate'',
     ''proxy-authorization'', ''te'', ''trailer'', ''transfer-encoding'', ''upgrade'']"

text \<open>\<open>forwardResponse\<close>: writing to a response whose headers are already sent throws inside
  the \<open>try\<close>, and the \<open>catch\<close> turns that into \<open>RESPONSE_FORWARD_ERROR\<close>.\<close>

definition forwardResponse ::
  "upstream_response \<Rightarrow> client_response \<Rightarrow> string \<Rightarrow> int \<Rightarrow> js_error + client_response" where
  "forwardResponse upstreamResponse res rid t =
     (if headersSent res then
        Inl (createError ''Failed to forward response'' 502 ''RESPONSE_FORWARD_ERROR''
               (Some (JObject [(''originalError'', JString ''Cannot set headers after they are sent to the client'')])) t)
      else
        Inr (res\<lparr> res_status := status upstreamResponse,
                  res_headers := res_headers res
                     @ filter (\<lambda>(k, v). toLowerCase k \<notin> set hopByHopHeaders) (headers upstreamResponse)
                     @ [(''X-Gateway-Service'', ''api-gateway''), (''X-Request-ID'', rid)],
                  res_body := (if truthy_str (data upstreamResponse) then data upstreamResponse else None),
                  headersSent := True \<rparr>))"

record forwarding_layer =
  breakerConfig :: breaker_config
  circuitBreakers :: "string \<rightharpoonup> circuit_breaker"

definition getCircuitBreaker :: "forwarding_layer \<Rightarrow> string \<Rightarrow> circuit_breaker \<times> forwarding_layer" where
  "getCircuitBreaker fl svc =
     (case circuitBreakers fl svc of
        Some cb \<Rightarrow> (cb, fl)
      | None \<Rightarrow>
          (let cb = new_CircuitBreaker (breakerConfig fl) svc None None None
           in (cb, fl\<lparr>circuitBreakers := (circuitBreakers fl)(svc \<mapsto> cb)\<rparr>)))"

text \<open>The backoff before a retry: \<open>Math.min(1000 * Math.pow(2, attempt - 1), 10000)\<close>,
  \<open>Math.random() * 0.1 * delay\<close>, and the wait of \<open>delay + jitter\<close> milliseconds. The
  jitter is computed over the reals; the timer is taken to fire on time, to the millisecond.\<close>

definition retryDelay :: "int \<Rightarrow> int" where
  "retryDelay attempt = min (1000 * 2 ^ nat (attempt - 1)) 10000"

definition retryJitter :: "real \<Rightarrow> int \<Rightarrow> real" where
  "retryJitter r delay = r * 0.1 * real_of_int delay"

definition backoff :: "int \<Rightarrow> world \<Rightarrow> world" where
  "backoff attempt w =
     (let delay = retryDelay attempt;
          jitter = retryJitter (random w (draws w)) delay
      in w\<lparr> draws := draws w + 1,
            timers := (real_of_int delay + jitter) # timers w,
            now := now w + \<lfloor>real_of_int delay + jitter\<rfloor> \<rparr>)"

text \<open>
  The names that the \<open>catch\<close> block of \<open>forwardRequest\<close> can see: its own parameter and
  constant, the constants of the loop body, the loop variable, the constants and parameters of
  the function, and the bindings at the top of the module. \<open>const startTime\<close> is declared
  inside the \<open>try\<close> block and so is not one of them; nor is it a global of the platform.
\<close>

definition catch_scope :: "string list" where
  "catch_scope = [''error'', ''duration'', ''isRetry'', ''attempt'', ''retries'', ''serviceName'',
     ''circuitBreaker'', ''lastError'', ''req'', ''res'', ''route'', ''maxRetries'',
     ''axios'', ''config'', ''ErrorHandler'', ''logger'', ''CIRCUIT_STATES'',
     ''CircuitBreaker'', ''ForwardingLayer'']"

text \<open>Reading an identifier: a name that no enclosing scope binds throws a
  \<open>ReferenceError\<close>.\<close>

definition read_identifier :: "string list \<Rightarrow> string \<Rightarrow> js_error + unit" where
  "read_identifier scope x =
     (if x \<in> set scope then Inr ()
      else Inl (native_error ''ReferenceError'' (x @ '' is not defined'')))"

text \<open>The test that ends the loop early: a breaker rejection, or an error that carries an
  upstream response with one of five statuses.\<close>

definition terminal_error :: "js_error \<Rightarrow> bool" where
  "terminal_error error =
     (errorCode error = Some ''CIRCUIT_BREAKER_OPEN'' \<or>
      (case response error of
         None \<Rightarrow> False
       | Some r \<Rightarrow> (case status r of None \<Rightarrow> False | Some s \<Rightarrow> s \<in> set [400, 401, 403, 404, 422])))"

text \<open>After the loop: \<open>throw ErrorHandler.mapUpstreamError(lastError, serviceName)\<close>. With
  \<open>lastError\<close> still \<open>null\<close>, reading \<open>error.code\<close> throws a \<open>TypeError\<close>.\<close>

definition after_loop :: "js_error option \<Rightarrow> string \<Rightarrow> int \<Rightarrow> js_error" where
  "after_loop lastError svc t =
     (case lastError of
        None \<Rightarrow> native_error ''TypeError'' ''Cannot read properties of null (reading 'code')''
      | Some e \<Rightarrow> mapUpstreamError e svc t)"

text \<open>The \<open>try\<close> block of one attempt: the call through the breaker, the breaker written
  back to the table, and the response forwarded to the client.\<close>

definition try_block ::
  "(string \<Rightarrow> string) \<Rightarrow> request \<Rightarrow> client_response \<Rightarrow> route_context \<Rightarrow> string
     \<Rightarrow> forwarding_layer \<times> world \<Rightarrow> (js_error + client_response) \<times> forwarding_layer \<times> world" where
  "try_block extractServiceName req res rt svc s =
     (case s of (fl, w) \<Rightarrow>
        (case getCircuitBreaker fl svc of (cb, fl1) \<Rightarrow>
           (case execute now cb (makeRequest extractServiceName req rt) w of
              (outcome, cb1, w1) \<Rightarrow>
                (let fl2 = fl1\<lparr>circuitBreakers := (circuitBreakers fl1)(svc \<mapsto> cb1)\<rparr> in
                 case outcome of
                   Inl error \<Rightarrow> (Inl error, fl2, w1)
                 | Inr result \<Rightarrow> (forwardResponse result res (requestId req) (now w1), fl2, w1)))))"

text \<open>
  The loop of \<open>forwardRequest\<close>, from \<open>attempt\<close> on. In the \<open>catch\<close> block the
  statement \<open>const duration = Date.now() - startTime\<close> comes right after
  \<open>lastError = error\<close>, and what it throws leaves the function; the early-exit test and
  the next attempt come after it.
\<close>

function retry_loop ::
  "(string \<Rightarrow> string) \<Rightarrow> request \<Rightarrow> client_response \<Rightarrow> route_context \<Rightarrow> string \<Rightarrow> int
     \<Rightarrow> int \<Rightarrow> js_error option \<Rightarrow> forwarding_layer \<times> world
     \<Rightarrow> (js_error + client_response) \<times> forwarding_layer \<times> world" where
  "retry_loop extractServiceName req res rt svc rets attempt lastError s =
     (if attempt \<le> rets then
        (case try_block extractServiceName req res rt svc
                (fst s, if attempt > 0 then backoff attempt (snd s) else snd s) of
           (Inr sent, s1) \<Rightarrow> (Inr sent, s1)
         | (Inl error, s1) \<Rightarrow>
             (case read_identifier catch_scope ''startTime'' of
                Inl thrown \<Rightarrow> (Inl thrown, s1)
              | Inr _ \<Rightarrow>
                  if terminal_error error then
                    (Inl (after_loop (Some error) svc (now (snd s1))), s1)
                  else retry_loop extractServiceName req res rt svc rets (attempt + 1)
                         (Some error) s1))
      else (Inl (after_loop lastError svc (now (snd s))), s))"
  by pat_completeness auto
termination
  by (relation "measure (\<lambda>(x, req, res, rt, svc, rets, attempt, le, s). nat (rets + 1 - attempt))")
     auto

declare retry_loop.simps [simp del]

definition forwardRequest ::
  "(string \<Rightarrow> string) \<Rightarrow> request \<Rightarrow> client_response \<Rightarrow> route_context \<Rightarrow> int option
     \<Rightarrow> forwarding_layer \<times> world \<Rightarrow> (js_error + client_response) \<times> forwarding_layer \<times> world" where
  "forwardRequest extractServiceName req res rt maxRetries s =
     (let rets = (case maxRetries of Some m \<Rightarrow> m | None \<Rightarrow> retries rt);
          svc = extractServiceName (target rt);
          fl1 = snd (getCircuitBreaker (fst s) svc)
      in retry_loop extractServiceName req res rt svc rets 0 None (fl1, snd s))"

text \<open>What a middleware does with the request: it passes it on (\<open>next()\<close>), passes an error
  on (\<open>next(error)\<close>), has forwarded the upstream response, or has answered with a status
  and a JSON body of its own.\<close>

datatype middleware_result =
  Next | NextError js_error | Forwarded client_response | Replied int envelope

definition forwardingMiddleware ::
  "(string \<Rightarrow> string) \<Rightarrow> request \<Rightarrow> client_response \<Rightarrow> route_context option
     \<Rightarrow> forwarding_layer \<times> world \<Rightarrow> middleware_result \<times> forwarding_layer \<times> world" where
  "forwardingMiddleware extractServiceName req res rt s =
     (case rt of
        None \<Rightarrow> (NextError (createError ''No route context found'' 500 ''MISSING_ROUTE_CONTEXT''
                               None (now (snd s))), s)
      | Some r \<Rightarrow>
          (case forwardRequest extractServiceName req res r None s of
             (Inr sent, s1) \<Rightarrow> (Forwarded sent, s1)
           | (Inl error, s1) \<Rightarrow> (NextError error, s1)))"

text \<open>The end of the pipeline as \<open>setupMiddleware\<close> orders it: the forwarding middleware
  hands the error of \<open>forwardRequest\<close> to \<open>next\<close>, which brings it to
  \<open>ErrorHandler.middleware()\<close>. The result is what the client gets: the forwarded response,
  or what the error handler makes of the error.\<close>

definition dispatch ::
  "bool \<Rightarrow> (string \<Rightarrow> string) \<Rightarrow> request \<Rightarrow> client_response \<Rightarrow> route_context
     \<Rightarrow> forwarding_layer \<times> world \<Rightarrow> (handled + client_response) \<times> forwarding_layer \<times> world" where
  "dispatch production extractServiceName req res rt s =
     (case forwardRequest extractServiceName req res rt None s of
        (Inr sent, s1) \<Rightarrow> (Inr sent, s1)
      | (Inl error, s1) \<Rightarrow>
          (Inl (errorMiddleware production error (requestId req) (headersSent res) (now (snd s1))),
           s1))"

section \<open>layers/rateLimit.js\<close>

record tier_config =
  requests :: int
  windowMs :: int

text \<open>
  The counter store behind the redis client: the integer under each key and the expiry (in
  seconds) set on it. \<open>responds k\<close> says whether the \<open>k\<close>-th \<open>exec()\<close> round trip
  succeeds (otherwise its promise rejects and nothing is written); \<open>execs\<close> counts the round
  trips made.
\<close>

record redis =
  counters :: "string \<rightharpoonup> int"
  expiry :: "string \<rightharpoonup> int"
  responds :: "nat \<Rightarrow> bool"
  execs :: nat

record rate_limit_layer =
  redisClient :: redis
  isConnected :: bool
  rateLimitTiers :: "string \<rightharpoonup> tier_config"
  defaultTier :: tier_config

text \<open>\<open>multi().get(key).exec()\<close> and \<open>multi().incr(key).expire(key, seconds).exec()\<close>.
  \<open>INCR\<close> of a missing key counts from 0.\<close>

definition exec_get :: "redis \<Rightarrow> string \<Rightarrow> (js_error + int option) \<times> redis" where
  "exec_get r k =
     (if responds r (execs r) then (Inr (counters r k), r\<lparr>execs := execs r + 1\<rparr>)
      else (Inl (native_error ''Error'' ''The client is closed''), r\<lparr>execs := execs r + 1\<rparr>))"

definition exec_incr_expire :: "redis \<Rightarrow> string \<Rightarrow> int \<Rightarrow> (js_error + unit) \<times> redis" where
  "exec_incr_expire r k seconds =
     (if responds r (execs r) then
        (Inr (), r\<lparr> counters := (counters r)(k \<mapsto> (case counters r k of None \<Rightarrow> 0 | Some n \<Rightarrow> n) + 1),
                  expiry := (expiry r)(k \<mapsto> seconds),
                  execs := execs r + 1 \<rparr>)
      else (Inl (native_error ''Error'' ''The client is closed''), r\<lparr>execs := execs r + 1\<rparr>))"

text \<open>Decimal rendering of an integer, as a template literal does it.\<close>

fun digits10 :: "nat \<Rightarrow> string" where
  "digits10 n =
     (if n < 10 then [''0123456789'' ! n]
      else digits10 (n div 10) @ [''0123456789'' ! (n mod 10)])"

declare digits10.simps [simp del]

definition show_int :: "int \<Rightarrow> string" where
  "show_int i = (if i < 0 then CHR ''-'' # digits10 (nat (- i)) else digits10 (nat i))"

definition getRateLimitKey :: "request \<Rightarrow> string \<Rightarrow> string" where
  "getRateLimitKey req tier =
     (let identifier = (case user req of Some u \<Rightarrow> ''user:'' @ id u
                        | None \<Rightarrow> ''ip:'' @ clientIp req)
      in ''rate_limit:'' @ tier @ '':'' @ identifier)"

text \<open>
  \<open>this.rateLimitTiers[tierName] || this.defaultTier\<close>. The tier table is a plain object, so
  the lookup also finds what every object inherits from \<open>Object.prototype\<close>: under one of
  the names below it yields a function or an object, which is truthy and has neither
  \<open>requests\<close> nor \<open>windowMs\<close>. An entry of the table comes first; any other name falls
  to the default tier.
\<close>

definition object_prototype_names :: "string list" where
  "object_prototype_names =
     [''constructor'', ''__proto__'', ''hasOwnProperty'', ''isPrototypeOf'',
      ''propertyIsEnumerable'', ''toLocaleString'', ''toString'', ''valueOf'',
      ''__defineGetter__'', ''__defineSetter__'', ''__lookupGetter__'', ''__lookupSetter__'']"

datatype tier_value = Config tier_config | Inherited

definition getTierConfig :: "rate_limit_layer \<Rightarrow> string \<Rightarrow> tier_value" where
  "getTierConfig rl tierName =
     (case rateLimitTiers rl tierName of
        Some t \<Rightarrow> Config t
      | None \<Rightarrow> if tierName \<in> set object_prototype_names then Inherited
                else Config (defaultTier rl))"

text \<open>\<open>Math.ceil(a / b)\<close> on integers, \<open>b\<close> positive.\<close>

definition ceil_div :: "int \<Rightarrow> int \<Rightarrow> int" where
  "ceil_div a b = - ((- a) div b)"

text \<open>A decision; \<open>resetTime\<close> is \<open>None\<close> where the code computes \<open>NaN\<close>.\<close>

record rate_decision =
  allowed :: bool
  remaining :: int
  resetTime :: "int option"
  tier :: "string option"

text \<open>\<open>new Date(x).toISOString()\<close> throws a \<open>RangeError\<close> unless \<open>x\<close> is a time value:
  a number of at most 8.64e15 in absolute value.\<close>

definition time_value :: "int \<Rightarrow> bool" where
  "time_value x = (- 8640000000000000 \<le> x \<and> x \<le> 8640000000000000)"

text \<open>
  The run of \<open>checkRateLimit\<close> when \<open>windowStart\<close> is \<open>NaN\<close>, which is the case for a
  window of zero (\<open>Math.floor(now / 0) * 0\<close>) and for a missing \<open>windowMs\<close>: the key ends
  in \<open>NaN\<close>, the read is sent, and then either the read is rejected or the argument
  \<open>new Date(windowStart).toISOString()\<close> of the first log call throws. Both land in the
  \<open>catch\<close>, whose \<open>resetTime\<close> is \<open>now + windowMs\<close>.
\<close>

definition nan_window ::
  "rate_limit_layer \<Rightarrow> string \<Rightarrow> int option \<Rightarrow> rate_decision \<times> rate_limit_layer" where
  "nan_window rl key failOpenReset =
     (\<lparr>allowed = True, remaining = - 1, resetTime = failOpenReset, tier = None\<rparr>,
      rl\<lparr>redisClient := snd (exec_get (redisClient rl) (key @ '':NaN''))\<rparr>)"

text \<open>
  \<open>checkRateLimit\<close> at clock reading \<open>t\<close>. \<open>Math.floor(now / windowMs) * windowMs\<close> is
  integer floor division for a window that is not zero. The counter read is a decimal string
  or \<open>null\<close>, and \<open>parseInt(results[0] || 0)\<close> makes the missing counter 0. A rejected
  round trip lands in the \<open>catch\<close>, and so does a log call whose date does not render: the
  one after the read renders \<open>windowStart\<close>, the one before a denial renders
  \<open>resetTime\<close>.
\<close>

definition checkRateLimit ::
  "rate_limit_layer \<Rightarrow> request \<Rightarrow> string \<Rightarrow> int \<Rightarrow> rate_decision \<times> rate_limit_layer" where
  "checkRateLimit rl req tierName t =
     (if \<not> isConnected rl then
        (\<lparr>allowed = True, remaining = - 1, resetTime = Some (t + 60000), tier = None\<rparr>, rl)
      else
        (let key = getRateLimitKey req tierName in
         case getTierConfig rl tierName of
           Inherited \<Rightarrow> nan_window rl key None
         | Config tierConfig \<Rightarrow>
             if windowMs tierConfig = 0 then nan_window rl key (Some (t + windowMs tierConfig))
             else
               (let windowStart = (t div windowMs tierConfig) * windowMs tierConfig;
                    windowKey = key @ '':'' @ show_int windowStart;
                    failOpen = \<lparr>allowed = True, remaining = - 1,
                                resetTime = Some (t + windowMs tierConfig), tier = None\<rparr>
                in case exec_get (redisClient rl) windowKey of
                     (Inl error, r1) \<Rightarrow> (failOpen, rl\<lparr>redisClient := r1\<rparr>)
                   | (Inr result, r1) \<Rightarrow>
                       (let currentCount = (case result of None \<Rightarrow> 0 | Some n \<Rightarrow> n) in
                        if \<not> time_value windowStart then (failOpen, rl\<lparr>redisClient := r1\<rparr>)
                        else if currentCount \<ge> requests tierConfig then
                          (if \<not> time_value (windowStart + windowMs tierConfig)
                           then (failOpen, rl\<lparr>redisClient := r1\<rparr>)
                           else
                             (\<lparr>allowed = False, remaining = 0,
                               resetTime = Some (windowStart + windowMs tierConfig),
                               tier = Some tierName\<rparr>,
                              rl\<lparr>redisClient := r1\<rparr>))
                        else
                          (case exec_incr_expire r1 windowKey
                                  (ceil_div (windowMs tierConfig) 1000) of
                             (Inl error, r2) \<Rightarrow> (failOpen, rl\<lparr>redisClient := r2\<rparr>)
                           | (Inr _, r2) \<Rightarrow>
                               (\<lparr>allowed = True,
                                 remaining = requests tierConfig - currentCount - 1,
                                 resetTime = Some (windowStart + windowMs tierConfig),
                                 tier = Some tierName\<rparr>,
                                rl\<lparr>redisClient := r2\<rparr>))))))"

text \<open>The rate-limit middleware for the route's tier \<open>tierName\<close>; \<open>t\<close> is the clock
  reading of \<open>checkRateLimit\<close> and \<open>t'\<close> the later one of the error's constructor. Setting
  a header throws when the headers of the response are sent and when the value is
  \<open>undefined\<close>, as the \<open>requests\<close> of an inherited property is; the \<open>catch\<close> lets the
  request pass.\<close>

definition rateLimitMiddleware ::
  "rate_limit_layer \<Rightarrow> string \<Rightarrow> request \<Rightarrow> client_response \<Rightarrow> int \<Rightarrow> int
     \<Rightarrow> middleware_result \<times> client_response \<times> rate_limit_layer" where
  "rateLimitMiddleware rl tierName req res t t' =
     (let userTier = (case user req of None \<Rightarrow> tierName | Some u \<Rightarrow> or_str (user_tier u) tierName) in
      case checkRateLimit rl req userTier t of
        (result, rl1) \<Rightarrow>
          if headersSent res then (Next, res, rl1)
          else
            (case getTierConfig rl userTier of
               Inherited \<Rightarrow> (Next, res, rl1)
             | Config tierConfig \<Rightarrow>
                 (let res1 = res\<lparr>res_headers := res_headers res @
                        [(''X-RateLimit-Limit'', show_int (requests tierConfig)),
                         (''X-RateLimit-Remaining'', show_int (remaining result)),
                         (''X-RateLimit-Reset'',
                            (case resetTime result of
                               Some r \<Rightarrow> show_int (ceil_div r 1000) | None \<Rightarrow> ''NaN'')),
                         (''X-RateLimit-Tier'', or_str (tier result) userTier)]\<rparr>
                  in if \<not> allowed result then
                       (NextError (handleRateLimitError (remaining result) (resetTime result)
                                     (tier result) t'), res1, rl1)
                     else (Next, res1, rl1))))"

section \<open>layers/entry.js\<close>

definition allowedMethods :: "string list" where
  "allowedMethods = [''GET'', ''POST'', ''PUT'', ''DELETE'', ''PATCH'', ''OPTIONS'', ''HEAD'']"

definition validateMethod :: "request \<Rightarrow> int \<Rightarrow> middleware_result" where
  "validateMethod req t =
     (if http_method req \<notin> set allowedMethods then
        Replied 405
          \<lparr> env_error = Some ''Method Not Allowed'',
            env_message = ''HTTP method '' @ http_method req @ '' is not supported'',
            env_details = None, env_requestId = requestId req,
            env_timestamp = Some t, withStack = False \<rparr>
      else Next)"

section \<open>layers/routing.js\<close>

text \<open>A route as the configuration or an administrator gives it: every field but the path
  and the target may be missing. An empty path or target stands for a missing one (both are
  falsy).\<close>

record route_config =
  c_path :: string
  c_target :: string
  c_timeout :: "int option"
  c_retries :: "int option"
  c_authRequired :: "bool option"
  c_rateLimitTier :: "string option"
  c_methods :: "string list option"
  c_stripPath :: "bool option"
  c_preserveHost :: "bool option"
  c_changeOrigin :: "bool option"

text \<open>The object literal that \<open>initializeRoutes\<close> and \<open>addRoute\<close> both build: \<open>||\<close> for
  the numbers, the tier and the methods (an empty array is truthy), \<open>!== false\<close> and
  \<open>=== true\<close> for the flags.\<close>

definition normalizeRoute :: "route_config \<Rightarrow> route" where
  "normalizeRoute c =
     \<lparr> route_path = c_path c,
       target = c_target c,
       timeout = or_num (c_timeout c) 5000,
       retries = or_num (c_retries c) 3,
       authRequired = (c_authRequired c \<noteq> Some False),
       rateLimitTier = or_str (c_rateLimitTier c) ''basic'',
       methods = (case c_methods c of None \<Rightarrow> [''GET''] | Some ms \<Rightarrow> ms),
       stripPath = (c_stripPath c \<noteq> Some False),
       preserveHost = (c_preserveHost c = Some True),
       changeOrigin = (c_changeOrigin c \<noteq> Some False) \<rparr>"

text \<open>What the path-to-regexp library returns for a pattern: the names of the parameters and
  the matcher, which gives the match array (the whole match, then the groups) or nothing.\<close>

record path_regexp =
  keys :: "string list"
  exec :: "string \<Rightarrow> string option list option"

record compiled_route = route +
  regexp :: "string \<Rightarrow> string option list option"
  originalPath :: string

definition compileRoute :: "(string \<Rightarrow> path_regexp) \<Rightarrow> route \<Rightarrow> compiled_route" where
  "compileRoute pathToRegexp r =
     route.extend r \<lparr> regexp = exec (pathToRegexp (route_path r)), originalPath = route_path r \<rparr>"

record routing_layer =
  routes :: "route list"
  compiledRoutes :: "compiled_route list"

definition initializeRoutes :: "(string \<Rightarrow> path_regexp) \<Rightarrow> route_config list \<Rightarrow> routing_layer" where
  "initializeRoutes pathToRegexp configRoutes =
     (let rs = map normalizeRoute configRoutes
      in \<lparr> routes = rs, compiledRoutes = map (compileRoute pathToRegexp) rs \<rparr>)"

definition extractParams ::
  "(string \<Rightarrow> path_regexp) \<Rightarrow> string \<Rightarrow> string \<Rightarrow> (string \<times> string option) list" where
  "extractParams pathToRegexp pattern p =
     (let re = pathToRegexp pattern in
      case exec re p of
        None \<Rightarrow> []
      | Some m \<Rightarrow>
          map (\<lambda>(key, index). (key, if index + 1 < length m then m ! (index + 1) else None))
            (zip (keys re) [0 ..< length (keys re)]))"

record route_match =
  matched :: compiled_route
  groups :: "string option list"
  match_params :: "(string \<times> string option) list"

fun find_in :: "(string \<Rightarrow> path_regexp) \<Rightarrow> compiled_route list \<Rightarrow> request \<Rightarrow> route_match option" where
  "find_in pathToRegexp [] req = None"
| "find_in pathToRegexp (r # rs) req =
     (if http_method req \<notin> set (methods r) then find_in pathToRegexp rs req
      else (case regexp r (path req) of
              Some m \<Rightarrow> Some \<lparr> matched = r, groups = m,
                               match_params = extractParams pathToRegexp (originalPath r) (path req) \<rparr>
            | None \<Rightarrow> find_in pathToRegexp rs req))"

definition findRoute :: "(string \<Rightarrow> path_regexp) \<Rightarrow> routing_layer \<Rightarrow> request \<Rightarrow> route_match option" where
  "findRoute pathToRegexp rl req = find_in pathToRegexp (compiledRoutes rl) req"

text \<open>\<open>s.startsWith(p)\<close>, and \<open>s.replace(/X$/, '')\<close> for a fixed text \<open>X\<close>: the text is
  cut off the end of \<open>s\<close> when \<open>s\<close> ends with it.\<close>

definition startsWith :: "string \<Rightarrow> string \<Rightarrow> bool" where
  "startsWith s p = (take (length p) s = p)"

definition strip_suffix :: "string \<Rightarrow> string \<Rightarrow> string" where
  "strip_suffix suf s =
     (if length suf \<le> length s \<and> drop (length s - length suf) s = suf
      then take (length s - length suf) s else s)"

text \<open>
  \<open>s.replace(new RegExp(`^${src}`), '')\<close>. The characters below have a meaning of their
  own in a regular expression. A source without any of them is matched letter by letter and
  with the case as written, so the expression matches exactly when \<open>s\<close> starts with
  \<open>src\<close>, and that start is what is cut off. A source that holds one of them is outside
  this model of regular expressions: the result is \<open>None\<close>.
\<close>

definition regex_special :: "char list" where
  "regex_special = CHR 0x5C # ''^$.|?*+()[]{}''"

definition literal_source :: "string \<Rightarrow> bool" where
  "literal_source src = list_all (\<lambda>c. c \<notin> set regex_special) src"

definition replace_anchored :: "string \<Rightarrow> string \<Rightarrow> string option" where
  "replace_anchored src s =
     (if literal_source src then Some (if startsWith s src then drop (length src) s else s)
      else None)"

text \<open>\<open>new URLSearchParams(query).toString()\<close>: names and values in the
  \<open>application/x-www-form-urlencoded\<close> form (letters, digits and \<open>* - . _\<close> stay, a
  space becomes \<open>+\<close>, every other byte becomes \<open>%XX\<close>), joined by \<open>=\<close> and
  \<open>&\<close>.\<close>

definition form_unreserved :: "char \<Rightarrow> bool" where
  "form_unreserved c =
     (let n = (of_char c :: nat) in
      (48 \<le> n \<and> n \<le> 57) \<or> (65 \<le> n \<and> n \<le> 90) \<or> (97 \<le> n \<and> n \<le> 122) \<or> c \<in> set ''*-._'')"

definition form_encode_char :: "char \<Rightarrow> string" where
  "form_encode_char c =
     (if form_unreserved c then [c]
      else if c = CHR '' '' then ''+''
      else [CHR ''%'', ''0123456789ABCDEF'' ! ((of_char c :: nat) div 16),
            ''0123456789ABCDEF'' ! ((of_char c :: nat) mod 16)])"

definition form_encode :: "string \<Rightarrow> string" where
  "form_encode s = concat (map form_encode_char s)"

fun join :: "string \<Rightarrow> string list \<Rightarrow> string" where
  "join sep [] = []"
| "join sep [x] = x"
| "join sep (x # y # ys) = x @ sep @ join sep (y # ys)"

definition URLSearchParams_toString :: "(string \<times> string) list \<Rightarrow> string" where
  "URLSearchParams_toString q = join ''&'' (map (\<lambda>(k, v). form_encode k @ ''='' @ form_encode v) q)"

definition buildTargetUrl :: "compiled_route \<Rightarrow> request \<Rightarrow> string option" where
  "buildTargetUrl r req =
     (case (if stripPath r then
              map_option (\<lambda>p. if p = [] then ''/'' else p)
                (replace_anchored (strip_suffix ''/*'' (originalPath r)) (path req))
            else Some (path req)) of
        None \<Rightarrow> None
      | Some p \<Rightarrow>
          (let targetPath = (if \<not> startsWith p ''/'' then ''/'' @ p else p);
               targetBase = strip_suffix ''/'' (target r);
               targetUrl = targetBase @ targetPath
           in if query req \<noteq> [] then Some (targetUrl @ ''?'' @ URLSearchParams_toString (query req))
              else Some targetUrl))"

definition validMethods :: "string list" where
  "validMethods = [''GET'', ''POST'', ''PUT'', ''DELETE'', ''PATCH'', ''HEAD'', ''OPTIONS'']"

text \<open>\<open>validateRoute\<close>; \<open>isValidUrl\<close> rests on the platform's URL parser and is the first
  argument. The fields are typed, so the tests on \<open>typeof\<close> and \<open>Array.isArray\<close> never
  fire.\<close>

definition validateRoute :: "(string \<Rightarrow> bool) \<Rightarrow> route_config \<Rightarrow> string list" where
  "validateRoute isValidUrl c =
     (if c_path c = [] then [''Route path is required''] else [])
     @ (if c_target c = [] then [''Route target is required''] else [])
     @ (if c_target c \<noteq> [] \<and> \<not> isValidUrl (c_target c)
        then [''Route target must be a valid URL''] else [])
     @ (case c_timeout c of
          Some n \<Rightarrow> if n \<noteq> 0 \<and> n \<le> 0 then [''Route timeout must be a positive number''] else []
        | None \<Rightarrow> [])
     @ (case c_retries c of
          Some n \<Rightarrow> if n \<noteq> 0 \<and> n < 0 then [''Route retries must be a non-negative number''] else []
        | None \<Rightarrow> [])
     @ (case c_methods c of
          Some ms \<Rightarrow>
            (let invalidMethods = filter (\<lambda>m. m \<notin> set validMethods) ms
             in if length invalidMethods > 0
                then [''Invalid HTTP methods: '' @ join '', '' invalidMethods] else [])
        | None \<Rightarrow> [])"

definition addRoute ::
  "(string \<Rightarrow> bool) \<Rightarrow> (string \<Rightarrow> path_regexp) \<Rightarrow> routing_layer \<Rightarrow> route_config \<Rightarrow> int
     \<Rightarrow> js_error + route \<times> routing_layer" where
  "addRoute isValidUrl pathToRegexp rl routeConfig t =
     (let errors = validateRoute isValidUrl routeConfig in
      if length errors > 0 then
        Inl (createError ''Invalid route configuration'' 400 ''INVALID_ROUTE_CONFIG''
               (Some (JObject [(''errors'', JArray (map JString errors))])) t)
      else
        (let r = normalizeRoute routeConfig
         in Inr (r, rl\<lparr> routes := routes rl @ [r],
                         compiledRoutes := compiledRoutes rl @ [compileRoute pathToRegexp r] \<rparr>)))"

text \<open>
  The routing middleware: what it hands to \<open>next\<close>, and the route context it attaches to the
  request on a match. The result is \<open>None\<close> where \<open>buildTargetUrl\<close> is. Within this
  model nothing in the \<open>try\<close> block throws, so the \<open>catch\<close> with its
  \<open>ROUTE_RESOLUTION_ERROR\<close> has no case here.
\<close>

definition routingMiddleware ::
  "(string \<Rightarrow> path_regexp) \<Rightarrow> routing_layer \<Rightarrow> request \<Rightarrow> int
     \<Rightarrow> (middleware_result \<times> route_context option) option" where
  "routingMiddleware pathToRegexp rl req t =
     (case findRoute pathToRegexp rl req of
        None \<Rightarrow>
          Some (NextError
                  (createError (''No route found for '' @ http_method req @ '' '' @ path req) 404
                     ''ROUTE_NOT_FOUND''
                     (Some (JObject
                        [(''method'', JString (http_method req)), (''path'', JString (path req)),
                         (''availableRoutes'',
                            JArray (map (\<lambda>r. JObject [(''path'', JString (route_path r)),
                                                       (''methods'', JArray (map JString (methods r)))])
                                      (routes rl)))])) t),
                None)
      | Some routeMatch \<Rightarrow>
          (let r = matched routeMatch in
           case buildTargetUrl r req of
             None \<Rightarrow> None
           | Some url \<Rightarrow>
               Some (Next,
                     Some \<lparr> route_path = route_path r, target = target r, timeout = timeout r,
                            retries = retries r, authRequired = authRequired r,
                            rateLimitTier = rateLimitTier r, methods = methods r,
                            stripPath = stripPath r, preserveHost = preserveHost r,
                            changeOrigin = changeOrigin r, targetUrl = url,
                            params = match_params routeMatch \<rparr>)))"

section \<open>Concrete inputs\<close>




definition zero_retries_route :: route_config where
  "zero_retries_route = \<lparr> c_path = ''/api/x'', c_target = ''http://u'', c_timeout = None, c_retries = Some 0,
       c_authRequired = None, c_rateLimitTier = None, c_methods = Some [''GET''],
       c_stripPath = None, c_preserveHost = None, c_changeOrigin = None \<rparr>"

definition noRegexp :: "string \<Rightarrow> path_regexp" where
  "noRegexp p = \<lparr>keys = [], exec = (\<lambda>s. None)\<rparr>"

definition demo_request :: request where
  "demo_request =
     \<lparr> requestId = ''req-1'', http_method = ''GET'', path = ''/api/users'', query = [],
       user = None, clientIp = ''10.0.0.1'' \<rparr>"

definition demo_response :: client_response where
  "demo_response = \<lparr> headersSent = False, res_status = None, res_headers = [], res_body = None \<rparr>"

definition demo_route :: route_context where
  "demo_route =
     \<lparr> route_path = ''/api/users'', target = ''http://localhost:3001'', timeout = 5000,
       retries = 3, authRequired = True, rateLimitTier = ''basic'',
       methods = [''GET'', ''POST'', ''PUT'', ''DELETE''], stripPath = True,
       preserveHost = False, changeOrigin = True,
       targetUrl = ''http://localhost:3001/'', params = [] \<rparr>"

definition demo_service :: "string \<Rightarrow> string" where
  "demo_service url = ''localhost:3001''"

definition demo_layer :: forwarding_layer where
  "demo_layer =
     \<lparr> breakerConfig = \<lparr>cfg_failureThreshold = 5, cfg_recoveryTimeout = 30000,
                          cfg_monitorTimeout = 2000\<rparr>,
       circuitBreakers = Map.empty \<rparr>"

text \<open>An error as axios rejects with it: a plain \<open>Error\<close> with a \<open>code\<close>.\<close>

definition axios_error :: "string \<Rightarrow> string \<Rightarrow> js_error" where
  "axios_error c msg = (native_error ''Error'' msg)\<lparr>code := Some c\<rparr>"

text \<open>An upstream that refuses every connection, and one that lets every call run into the
  route's timeout.\<close>

definition refusing_world :: world where
  "refusing_world =
     \<lparr> now = 1000,
       upstream = (\<lambda>k. (Inl (axios_error ''ECONNREFUSED'' ''connect ECONNREFUSED 127.0.0.1:3001''), 2)),
       calls = 0, random = (\<lambda>k. 1 / 2), draws = 0, timers = [] \<rparr>"

definition timing_out_world :: world where
  "timing_out_world =
     \<lparr> now = 1000,
       upstream = (\<lambda>k. (Inl (axios_error ''ECONNABORTED'' ''timeout of 5000ms exceeded''), 5000)),
       calls = 0, random = (\<lambda>k. 1 / 2), draws = 0, timers = [] \<rparr>"

definition demo_redis :: redis where
  "demo_redis =
     \<lparr> counters = [''rate_limit:basic:ip:10.0.0.1:1699999980000'' \<mapsto> 42,
                    ''rate_limit:premium:ip:10.0.0.1:1699999980000'' \<mapsto> 1000],
       expiry = Map.empty, responds = (\<lambda>k. True), execs = 0 \<rparr>"

definition demo_limiter :: rate_limit_layer where
  "demo_limiter =
     \<lparr> redisClient = demo_redis, isConnected = True,
       rateLimitTiers = [''basic'' \<mapsto> \<lparr>requests = 100, windowMs = 60000\<rparr>,
                         ''premium'' \<mapsto> \<lparr>requests = 1000, windowMs = 60000\<rparr>,
                         ''enterprise'' \<mapsto> \<lparr>requests = 10000, windowMs = 60000\<rparr>],
       defaultTier = \<lparr>requests = 100, windowMs = 60000\<rparr> \<rparr>"

text \<open>A stand-in for path-to-regexp that matches a path exactly, and a route table with two
  routes on one path.\<close>

definition exact_regexp :: "string \<Rightarrow> path_regexp" where
  "exact_regexp p = \<lparr>keys = [], exec = (\<lambda>s. if s = p then Some [Some s] else None)\<rparr>"

definition demo_routes :: "route_config list" where
  "demo_routes =
     [\<lparr> c_path = ''/api/users'', c_target = ''http://localhost:3001'', c_timeout = Some 5000,
        c_retries = Some 3, c_authRequired = Some True, c_rateLimitTier = Some ''basic'',
        c_methods = Some [''GET''], c_stripPath = None, c_preserveHost = None,
        c_changeOrigin = None \<rparr>,
      \<lparr> c_path = ''/api/users'', c_target = ''http://localhost:3005'', c_timeout = Some 5000,
        c_retries = Some 3, c_authRequired = Some True, c_rateLimitTier = Some ''basic'',
        c_methods = Some [''GET'', ''POST''], c_stripPath = None, c_preserveHost = None,
        c_changeOrigin = None \<rparr>,
      \<lparr> c_path = ''/api/auth'', c_target = ''http://localhost:3002'', c_timeout = Some 3000,
        c_retries = Some 2, c_authRequired = Some False, c_rateLimitTier = Some ''basic'',
        c_methods = Some [''POST''], c_stripPath = None, c_preserveHost = None,
        c_changeOrigin = None \<rparr>]"

definition demo_routing :: routing_layer where
  "demo_routing = initializeRoutes exact_regexp demo_routes"


text \<open>
  A stand-in for path-to-regexp with the options the routing layer passes
  (\<open>sensitive: false\<close>, \<open>strict: false\<close>) and the library's default of matching to the end
  of the path, for patterns made of plain segments and of parameters \<open>:name\<close>. Pattern and
  path are cut at the slashes, one slash at the end aside; a plain segment matches the same
  segment in any letter case, a parameter matches any segment that is not empty and is one
  group of the match.
\<close>

fun split_on :: "char \<Rightarrow> string \<Rightarrow> string list" where
  "split_on c [] = [[]]"
| "split_on c (x # xs) =
     (if x = c then [] # split_on c xs
      else (case split_on c xs of [] \<Rightarrow> [[x]] | y # ys \<Rightarrow> (x # y) # ys))"

definition is_parameter :: "string \<Rightarrow> bool" where
  "is_parameter seg = (case seg of [] \<Rightarrow> False | c # cs \<Rightarrow> c = CHR '':'')"

fun match_segments :: "string list \<Rightarrow> string list \<Rightarrow> string option list option" where
  "match_segments [] [] = Some []"
| "match_segments (p # ps) (s # ss) =
     (if is_parameter p then
        (if s = [] then None else map_option (\<lambda>gs. Some s # gs) (match_segments ps ss))
      else if toLowerCase p = toLowerCase s then match_segments ps ss
      else None)"
| "match_segments [] (s # ss) = None"
| "match_segments (p # ps) [] = None"

definition segment_regexp :: "string \<Rightarrow> path_regexp" where
  "segment_regexp pattern =
     \<lparr> keys = map tl (filter is_parameter (split_on CHR ''/'' pattern)),
       exec = (\<lambda>s. map_option (\<lambda>gs. Some s # gs)
                      (match_segments (split_on CHR ''/'' (strip_suffix ''/'' pattern))
                                      (split_on CHR ''/'' (strip_suffix ''/'' s)))) \<rparr>"

text \<open>A route table with three \<open>stripPath\<close> routes: a plain pattern, one with a
  parameter, and the route for \<open>/api/auth\<close> of the shipped configuration.\<close>

definition strip_routes :: "route_config list" where
  "strip_routes =
     [\<lparr> c_path = ''/api/x'', c_target = ''http://u'', c_timeout = None, c_retries = None,
        c_authRequired = None, c_rateLimitTier = None, c_methods = Some [''GET''],
        c_stripPath = Some True, c_preserveHost = None, c_changeOrigin = None \<rparr>,
      \<lparr> c_path = ''/api/users/:id'', c_target = ''http://u'', c_timeout = None, c_retries = None,
        c_authRequired = None, c_rateLimitTier = None, c_methods = Some [''GET''],
        c_stripPath = Some True, c_preserveHost = None, c_changeOrigin = None \<rparr>,
      \<lparr> c_path = ''/api/auth'', c_target = ''http://localhost:3002'', c_timeout = Some 3000,
        c_retries = Some 2, c_authRequired = Some False, c_rateLimitTier = Some ''basic'',
        c_methods = Some [''POST''], c_stripPath = None, c_preserveHost = None,
        c_changeOrigin = None \<rparr>]"

definition strip_routing :: routing_layer where
  "strip_routing = initializeRoutes segment_regexp strip_routes"

text \<open>The target URL in the route context of a request that the routing middleware passes
  on; nothing where it does not pass the request on.\<close>

definition routed_to :: "(middleware_result \<times> route_context option) option \<Rightarrow> string option" where
  "routed_to out = (case out of Some (Next, Some c) \<Rightarrow> Some (targetUrl c) | _ \<Rightarrow> None)"

section \<open>Properties\<close>

subsection \<open>The circuit breaker\<close>



















subsection \<open>Route normalization\<close>

lemma retries_normalizeRoute_zero: "c_retries c = Some 0 \<Longrightarrow> retries (normalizeRoute c) = 3"
  by (simp add: normalizeRoute_def or_num_def truthy_num_def)

lemma retries_compileRoute: "retries (compileRoute p r) = retries r"
  by (simp add: compileRoute_def route.defs)

text \<open>
  C10. A route configured with \<open>retries = 0\<close> comes out of normalization with
  \<open>retries = 3\<close>: in the route table and the compiled table that \<open>initializeRoutes\<close>
  builds, and in the route that \<open>addRoute\<close> returns and appends. \<open>validateRoute\<close> treats
  the zero like a missing value, so it does not reject it.
\<close>

theorem zero_retries_default_to_three:
  "(i < length configRoutes \<and> c_retries (configRoutes ! i) = Some 0 \<longrightarrow>
      retries (routes (initializeRoutes pathToRegexp configRoutes) ! i) = 3 \<and>
      retries (compiledRoutes (initializeRoutes pathToRegexp configRoutes) ! i) = 3)
   \<and> (c_retries c = Some 0 \<and> validateRoute isValidUrl c = [] \<longrightarrow>
        (case addRoute isValidUrl pathToRegexp rl c t of
           Inl err \<Rightarrow> False
         | Inr (r, rl') \<Rightarrow>
             retries r = 3 \<and> routes rl' = routes rl @ [r] \<and>
             retries (last (compiledRoutes rl')) = 3))
   \<and> (c_retries c = Some 0 \<longrightarrow>
        validateRoute isValidUrl c = validateRoute isValidUrl (c\<lparr>c_retries := None\<rparr>))"
proof (intro conjI impI)
  assume a: "i < length configRoutes \<and> c_retries (configRoutes ! i) = Some 0"
  then show "retries (routes (initializeRoutes pathToRegexp configRoutes) ! i) = 3"
    by (simp add: initializeRoutes_def Let_def retries_normalizeRoute_zero)
  from a show "retries (compiledRoutes (initializeRoutes pathToRegexp configRoutes) ! i) = 3"
    by (simp add: initializeRoutes_def Let_def retries_normalizeRoute_zero retries_compileRoute)
next
  assume "c_retries c = Some 0 \<and> validateRoute isValidUrl c = []"
  then show "case addRoute isValidUrl pathToRegexp rl c t of
           Inl err \<Rightarrow> False
         | Inr (r, rl') \<Rightarrow>
             retries r = 3 \<and> routes rl' = routes rl @ [r] \<and>
             retries (last (compiledRoutes rl')) = 3"
    by (simp add: addRoute_def Let_def retries_normalizeRoute_zero retries_compileRoute)
next
  assume "c_retries c = Some 0"
  then show "validateRoute isValidUrl c = validateRoute isValidUrl (c\<lparr>c_retries := None\<rparr>)"
    by (simp add: validateRoute_def)
qed

theorem zero_retries_default_to_three_witness:
  "retries (routes (initializeRoutes noRegexp [zero_retries_route]) ! 0) = 3
   \<and> retries (compiledRoutes (initializeRoutes noRegexp [zero_retries_route]) ! 0) = 3
   \<and> (case addRoute (\<lambda>u. True) noRegexp \<lparr>routes = [], compiledRoutes = []\<rparr> zero_retries_route 0 of
         Inl err \<Rightarrow> False | Inr (r, rl') \<Rightarrow> retries r = 3)"
  using zero_retries_default_to_three
    [of 0 "[zero_retries_route]" noRegexp zero_retries_route "\<lambda>u. True" "\<lparr>routes = [], compiledRoutes = []\<rparr>" 0]
  by (simp add: zero_retries_route_def validateRoute_def validMethods_def split: sum.splits prod.splits)

subsection \<open>Dispatch, retries and backoff\<close>

lemma read_startTime:
  "read_identifier catch_scope ''startTime'' =
     Inl (native_error ''ReferenceError'' ''startTime is not defined'')"
  by (simp add: read_identifier_def catch_scope_def)

lemma retry_loop_unfold:
  "retry_loop x req res rt svc rets attempt lastError s =
     (if attempt \<le> rets then
        (case try_block x req res rt svc
                (fst s, if attempt > 0 then backoff attempt (snd s) else snd s) of
           (Inr sent, s1) \<Rightarrow> (Inr sent, s1)
         | (Inl error, s1) \<Rightarrow>
             (Inl (native_error ''ReferenceError'' ''startTime is not defined''), s1))
      else (Inl (after_loop lastError svc (now (snd s))), s))"
  by (subst retry_loop.simps) (simp add: read_startTime split: prod.splits sum.splits)

lemma axiosInstance_world:
  "calls (snd (axiosInstance w)) = calls w + 1"
  "timers (snd (axiosInstance w)) = timers w"
  by (simp_all add: axiosInstance_def split: prod.splits)

lemma makeRequest_world:
  "calls (snd (makeRequest x req rt w)) = calls w + 1"
  "timers (snd (makeRequest x req rt w)) = timers w"
  using axiosInstance_world[of w]
  by (auto simp add: makeRequest_def split: prod.splits sum.splits)

lemma attempt_call_world:
  "snd (snd (attempt_call clock cb f w)) = snd (f w)"
  by (simp add: attempt_call_def split: prod.splits sum.splits)

lemma execute_world:
  "snd (snd (execute clock cb f w)) = w \<or> snd (snd (execute clock cb f w)) = snd (f w)"
  by (simp add: execute_def attempt_call_world)

lemma execute_makeRequest_world:
  assumes "execute now cb (makeRequest x req rt) w = (out, cb1, w1)"
  shows "calls w1 \<le> calls w + 1" and "timers w1 = timers w"
proof -
  have "snd (snd (execute now cb (makeRequest x req rt) w)) = w \<or>
        snd (snd (execute now cb (makeRequest x req rt) w)) = snd (makeRequest x req rt w)"
    by (rule execute_world)
  with assms have "w1 = w \<or> w1 = snd (makeRequest x req rt w)" by simp
  then show "calls w1 \<le> calls w + 1" and "timers w1 = timers w"
    using makeRequest_world[of x req rt w] by auto
qed

lemma try_block_world:
  "calls (snd (snd (try_block x req res rt svc (fl, w)))) \<le> calls w + 1"
  "timers (snd (snd (try_block x req res rt svc (fl, w)))) = timers w"
  by (auto simp add: try_block_def Let_def split: prod.splits sum.splits
      dest: execute_makeRequest_world)

lemma retry_loop_first_attempt:
  "calls (snd (snd (retry_loop x req res rt svc rets 0 lastError (fl, w)))) \<le> calls w + 1"
  "timers (snd (snd (retry_loop x req res rt svc rets 0 lastError (fl, w)))) = timers w"
  using try_block_world[of x req res rt svc fl w]
  by (auto simp add: retry_loop_unfold split: prod.splits sum.splits)

lemma forwardRequest_one_attempt:
  "calls (snd (snd (forwardRequest x req res rt maxRetries (fl, w)))) \<le> calls w + 1"
  "timers (snd (snd (forwardRequest x req res rt maxRetries (fl, w)))) = timers w"
  using retry_loop_first_attempt[of x req res rt "x (target rt)"
      "case maxRetries of Some m \<Rightarrow> m | None \<Rightarrow> retries rt" None
      "snd (getCircuitBreaker fl (x (target rt)))" w]
  by (simp_all add: forwardRequest_def Let_def)

lemma forwardRequest_error_cases:
  assumes "fst (forwardRequest x req res rt maxRetries s) = Inl e"
  shows "e = native_error ''ReferenceError'' ''startTime is not defined'' \<or>
         e = native_error ''TypeError'' ''Cannot read properties of null (reading 'code')''"
  using assms
  by (auto simp add: forwardRequest_def Let_def retry_loop_unfold after_loop_def
      split: prod.splits sum.splits if_splits)


lemma fst_dispatch:
  "fst (dispatch production x req res rt s) =
     (case fst (forwardRequest x req res rt None s) of
        Inl e \<Rightarrow> Inl (errorMiddleware production e (requestId req) (headersSent res)
                        (now (snd (snd (forwardRequest x req res rt None s)))))
      | Inr sent \<Rightarrow> Inr sent)"
  by (simp add: dispatch_def split: prod.splits sum.splits)

lemmas demo_defs = demo_request_def demo_response_def demo_route_def demo_service_def
  demo_layer_def axios_error_def native_error_def

text \<open>
  C2. What the retry loop does on a failure. Whatever the request, the route and the upstream,
  \<open>forwardRequest\<close> makes at most one upstream call and sets no timer: the \<open>catch\<close>
  block reads \<open>startTime\<close>, which is not in scope there, so every failed first attempt
  ends the function with a \<open>ReferenceError\<close> before the early-exit test and before any
  retry. The only other error that can leave the function is the \<open>TypeError\<close> of a loop
  that made no attempt; no error comes out mapped. For a route with \<open>retries = 3\<close> whose upstream refuses every connection, one
  call is made, no backoff is waited, the error that leaves \<open>forwardRequest\<close> is the
  \<open>ReferenceError\<close>, and the client gets status 500 with
  \<open>INTERNAL_SERVER_ERROR\<close>.
\<close>

theorem refused_connection_is_not_retried:
  "calls (snd (snd (forwardRequest x req res rt maxRetries (fl, w)))) \<le> calls w + 1
   \<and> timers (snd (snd (forwardRequest x req res rt maxRetries (fl, w)))) = timers w
   \<and> (case fst (forwardRequest x req res rt maxRetries (fl, w)) of
         Inr sent \<Rightarrow> True
       | Inl e \<Rightarrow>
           e = native_error ''ReferenceError'' ''startTime is not defined'' \<or>
           e = native_error ''TypeError'' ''Cannot read properties of null (reading 'code')'')
   \<and> retries demo_route = 3
   \<and> (case forwardRequest demo_service demo_request demo_response demo_route None
               (demo_layer, refusing_world) of
         (outcome, fl', w') \<Rightarrow>
           outcome = Inl (native_error ''ReferenceError'' ''startTime is not defined'') \<and>
           calls w' = 1 \<and> timers w' = [])
   \<and> (case fst (dispatch False demo_service demo_request demo_response demo_route
                    (demo_layer, refusing_world)) of
         Inl (Sent st e) \<Rightarrow> st = Some 500 \<and> env_error e = Some ''INTERNAL_SERVER_ERROR''
       | _ \<Rightarrow> False)"
proof (intro conjI)
  show "calls (snd (snd (forwardRequest x req res rt maxRetries (fl, w)))) \<le> calls w + 1"
    by (rule forwardRequest_one_attempt)
  show "timers (snd (snd (forwardRequest x req res rt maxRetries (fl, w)))) = timers w"
    by (rule forwardRequest_one_attempt)
  show "case fst (forwardRequest x req res rt maxRetries (fl, w)) of
         Inr sent \<Rightarrow> True
       | Inl e \<Rightarrow>
           e = native_error ''ReferenceError'' ''startTime is not defined'' \<or>
           e = native_error ''TypeError'' ''Cannot read properties of null (reading 'code')''"
    using forwardRequest_error_cases[of x req res rt maxRetries "(fl, w)"]
    by (simp split: sum.splits)
  show "retries demo_route = 3" by (simp add: demo_route_def)
  have run: "fst (forwardRequest demo_service demo_request demo_response demo_route None
               (demo_layer, refusing_world)) =
             Inl (native_error ''ReferenceError'' ''startTime is not defined'')"
    "calls (snd (snd (forwardRequest demo_service demo_request demo_response demo_route None
               (demo_layer, refusing_world)))) = 1"
    "timers (snd (snd (forwardRequest demo_service demo_request demo_response demo_route None
               (demo_layer, refusing_world)))) = []"
    by (simp_all add: forwardRequest_def retry_loop_unfold try_block_def getCircuitBreaker_def
        new_CircuitBreaker_def or_num_def execute_def attempt_call_def makeRequest_def
        axiosInstance_def onFailure_def refusing_world_def demo_defs Let_def)
  then show "case forwardRequest demo_service demo_request demo_response demo_route None
               (demo_layer, refusing_world) of
         (outcome, fl', w') \<Rightarrow>
           outcome = Inl (native_error ''ReferenceError'' ''startTime is not defined'') \<and>
           calls w' = 1 \<and> timers w' = []"
    by (simp add: case_prod_beta)
  from run(1) show "case fst (dispatch False demo_service demo_request demo_response demo_route
                    (demo_layer, refusing_world)) of
         Inl (Sent st e) \<Rightarrow> st = Some 500 \<and> env_error e = Some ''INTERNAL_SERVER_ERROR''
       | _ \<Rightarrow> False"
    by (simp add: fst_dispatch errorMiddleware_def native_error_def demo_response_def
        truthy_num_def or_num_def)
qed


text \<open>
  C4. An upstream call that runs into the timeout. \<open>makeRequest\<close> turns axios's
  \<open>ECONNABORTED\<close> into a \<open>GatewayError\<close> with \<open>GATEWAY_TIMEOUT\<close> and 504, but the
  client of a route with \<open>retries = 3\<close> gets status 500 with \<open>INTERNAL_SERVER_ERROR\<close>
  (the \<open>ReferenceError\<close> of the \<open>catch\<close> block), in development and in production.
  And \<open>mapUpstreamError\<close>, which the loop applies to the last error, would turn that
  \<open>GATEWAY_TIMEOUT\<close> error into \<open>BAD_GATEWAY\<close> with 502.
\<close>

theorem upstream_timeout_surfaces_as_500:
  "fst (makeRequest demo_service demo_request demo_route timing_out_world) =
     Inl (createError ''Request timeout'' 504 ''GATEWAY_TIMEOUT''
            (Some (JObject [(''timeout'', JNumber 5000), (''service'', JString ''localhost:3001'')]))
            6000)
   \<and> (case fst (dispatch False demo_service demo_request demo_response demo_route
                    (demo_layer, timing_out_world)) of
         Inl (Sent st e) \<Rightarrow>
           st = Some 500 \<and> env_error e = Some ''INTERNAL_SERVER_ERROR'' \<and>
           env_message e = ''startTime is not defined''
       | _ \<Rightarrow> False)
   \<and> (case fst (dispatch True demo_service demo_request demo_response demo_route
                    (demo_layer, timing_out_world)) of
         Inl (Sent st e) \<Rightarrow>
           st = Some 500 \<and> env_error e = Some ''INTERNAL_SERVER_ERROR'' \<and>
           env_message e = ''An internal server error occurred''
       | _ \<Rightarrow> False)
   \<and> statusCode (mapUpstreamError (createError ''Request timeout'' 504 ''GATEWAY_TIMEOUT'' d t)
                     svc t') = Some 502
   \<and> errorCode (mapUpstreamError (createError ''Request timeout'' 504 ''GATEWAY_TIMEOUT'' d t)
                     svc t') = Some ''BAD_GATEWAY''"
proof (intro conjI)
  show "fst (makeRequest demo_service demo_request demo_route timing_out_world) =
     Inl (createError ''Request timeout'' 504 ''GATEWAY_TIMEOUT''
            (Some (JObject [(''timeout'', JNumber 5000), (''service'', JString ''localhost:3001'')]))
            6000)"
    by (simp add: makeRequest_def axiosInstance_def timing_out_world_def demo_defs)
  have run: "fst (forwardRequest demo_service demo_request demo_response demo_route None
               (demo_layer, timing_out_world)) =
             Inl (native_error ''ReferenceError'' ''startTime is not defined'')"
    by (simp add: forwardRequest_def retry_loop_unfold try_block_def getCircuitBreaker_def
        new_CircuitBreaker_def or_num_def execute_def attempt_call_def makeRequest_def
        axiosInstance_def onFailure_def timing_out_world_def demo_defs Let_def)
  from run show "case fst (dispatch False demo_service demo_request demo_response demo_route
                    (demo_layer, timing_out_world)) of
         Inl (Sent st e) \<Rightarrow>
           st = Some 500 \<and> env_error e = Some ''INTERNAL_SERVER_ERROR'' \<and>
           env_message e = ''startTime is not defined''
       | _ \<Rightarrow> False"
    by (simp add: fst_dispatch errorMiddleware_def native_error_def demo_response_def
        truthy_num_def or_num_def)
  from run show "case fst (dispatch True demo_service demo_request demo_response demo_route
                    (demo_layer, timing_out_world)) of
         Inl (Sent st e) \<Rightarrow>
           st = Some 500 \<and> env_error e = Some ''INTERNAL_SERVER_ERROR'' \<and>
           env_message e = ''An internal server error occurred''
       | _ \<Rightarrow> False"
    by (simp add: fst_dispatch errorMiddleware_def native_error_def demo_response_def
        truthy_num_def or_num_def)
  show "statusCode (mapUpstreamError (createError ''Request timeout'' 504 ''GATEWAY_TIMEOUT'' d t)
                     svc t') = Some 502"
    by (simp add: mapUpstreamError_def createError_def GatewayError_def)
  show "errorCode (mapUpstreamError (createError ''Request timeout'' 504 ''GATEWAY_TIMEOUT'' d t)
                     svc t') = Some ''BAD_GATEWAY''"
    by (simp add: mapUpstreamError_def createError_def GatewayError_def)
qed

lemma retryDelay_bounds:
  "retryDelay i \<le> 10000" "1000 \<le> retryDelay i"
  by (simp_all add: retryDelay_def)

lemma retryDelay_mono:
  assumes "i \<le> j"
  shows "retryDelay i \<le> retryDelay j"
proof -
  have "nat (i - 1) \<le> nat (j - 1)" using assms by simp
  then have "(2::int) ^ nat (i - 1) \<le> 2 ^ nat (j - 1)"
    by (rule power_increasing) simp
  then show ?thesis by (simp add: retryDelay_def min_le_iff_disj)
qed

lemma retryDelay_cap:
  assumes "5 \<le> i"
  shows "retryDelay i = 10000"
proof -
  have "nat 4 \<le> nat (i - 1)" using assms by simp
  then have "(2::int) ^ nat 4 \<le> 2 ^ nat (i - 1)"
    by (rule power_increasing) simp
  then have "(16::int) \<le> 2 ^ nat (i - 1)" by simp
  then show ?thesis by (simp add: retryDelay_def)
qed

lemma retryJitter_range:
  assumes "0 \<le> r" and "r < 1"
  shows "0 \<le> retryJitter r (retryDelay i)"
    and "retryJitter r (retryDelay i) < 0.1 * real_of_int (retryDelay i)"
proof -
  have pos: "0 < real_of_int (retryDelay i)"
    using retryDelay_bounds(2)[of i] by simp
  show "0 \<le> retryJitter r (retryDelay i)"
    using assms(1) pos by (simp add: retryJitter_def)
  have "r * (0.1 * real_of_int (retryDelay i)) < 1 * (0.1 * real_of_int (retryDelay i))"
    using assms(2) pos by (intro mult_strict_right_mono) simp_all
  then show "retryJitter r (retryDelay i) < 0.1 * real_of_int (retryDelay i)"
    by (simp add: retryJitter_def)
qed

lemma timers_backoff:
  "timers (backoff i w) =
     (real_of_int (retryDelay i) + retryJitter (random w (draws w)) (retryDelay i)) # timers w"
  by (simp add: backoff_def Let_def)

text \<open>
  C7. The backoff schedule. The loop computes the wait before zero-based attempt \<open>i\<close> as
  specified: \<open>backoff i\<close> sets one timer of \<open>min (1000 * 2 ^ (i - 1)) 10000\<close> milliseconds
  plus the value drawn from \<open>Math.random()\<close> times a tenth of that delay, which gives
  1000, 2000 and 4000 for the three retries of a route with \<open>retries = 3\<close>. But no
  dispatch ever waits: whatever the request, the route, the budget and the upstream,
  \<open>forwardRequest\<close> sets no timer and makes at most one upstream call, since the first
  failed attempt leaves the function with the \<open>ReferenceError\<close> of the \<open>catch\<close> block,
  before \<open>attempt\<close> is ever 1. For a route with \<open>retries = 3\<close> whose upstream refuses
  every connection, where the schedule has four attempts and three waits, there is one
  attempt and no wait.
\<close>

theorem backoff_is_never_waited:
  "retryDelay i = min (1000 * 2 ^ nat (i - 1)) 10000
   \<and> timers (backoff i w) =
       (real_of_int (retryDelay i) + random w (draws w) * 0.1 * real_of_int (retryDelay i))
       # timers w
   \<and> map retryDelay [1, 2, 3] = [1000, 2000, 4000]
   \<and> timers (snd (snd (forwardRequest x req res rt maxRetries (fl, w)))) = timers w
   \<and> calls (snd (snd (forwardRequest x req res rt maxRetries (fl, w)))) \<le> calls w + 1
   \<and> retries demo_route = 3
   \<and> fst (forwardRequest demo_service demo_request demo_response demo_route None
            (demo_layer, refusing_world))
       = Inl (native_error ''ReferenceError'' ''startTime is not defined'')
   \<and> calls (snd (snd (forwardRequest demo_service demo_request demo_response demo_route None
                         (demo_layer, refusing_world)))) = 1
   \<and> timers (snd (snd (forwardRequest demo_service demo_request demo_response demo_route None
                          (demo_layer, refusing_world)))) = []"
proof (intro conjI)
  show "retryDelay i = min (1000 * 2 ^ nat (i - 1)) 10000" by (simp add: retryDelay_def)
  show "timers (backoff i w) =
       (real_of_int (retryDelay i) + random w (draws w) * 0.1 * real_of_int (retryDelay i))
       # timers w"
    by (simp add: timers_backoff retryJitter_def)
  show "map retryDelay [1, 2, 3] = [1000, 2000, 4000]" by (simp add: retryDelay_def)
  show "timers (snd (snd (forwardRequest x req res rt maxRetries (fl, w)))) = timers w"
    by (rule forwardRequest_one_attempt)
  show "calls (snd (snd (forwardRequest x req res rt maxRetries (fl, w)))) \<le> calls w + 1"
    by (rule forwardRequest_one_attempt)
  show "retries demo_route = 3" by (simp add: demo_route_def)
  show "fst (forwardRequest demo_service demo_request demo_response demo_route None
            (demo_layer, refusing_world))
       = Inl (native_error ''ReferenceError'' ''startTime is not defined'')"
    and "calls (snd (snd (forwardRequest demo_service demo_request demo_response demo_route None
                         (demo_layer, refusing_world)))) = 1"
    and "timers (snd (snd (forwardRequest demo_service demo_request demo_response demo_route None
                          (demo_layer, refusing_world)))) = []"
    by (simp_all add: forwardRequest_def retry_loop_unfold try_block_def getCircuitBreaker_def
        new_CircuitBreaker_def or_num_def execute_def attempt_call_def makeRequest_def
        axiosInstance_def onFailure_def refusing_world_def demo_defs Let_def)
qed

subsection \<open>Route resolution\<close>

lemma find_in_find:
  "map_option matched (find_in p rs req) =
     List.find (\<lambda>r. http_method req \<in> set (methods r) \<and> regexp r (path req) \<noteq> None) rs"
  by (induction rs) (auto split: option.splits)

lemma find_in_groups:
  "find_in p rs req = Some m \<Longrightarrow> regexp (matched m) (path req) = Some (groups m)"
  by (induction rs) (auto split: option.splits if_splits)

lemma find_in_None:
  "(find_in p rs req = None) =
     (\<forall>r \<in> set rs. http_method req \<in> set (methods r) \<longrightarrow> regexp r (path req) = None)"
  by (induction rs) (auto split: option.splits)

lemma findRoute_first:
  assumes "findRoute p rl req = Some m"
  shows "\<exists>i < length (compiledRoutes rl).
           compiledRoutes rl ! i = matched m \<and>
           http_method req \<in> set (methods (matched m)) \<and>
           regexp (matched m) (path req) = Some (groups m) \<and>
           (\<forall>j < i. \<not> (http_method req \<in> set (methods (compiledRoutes rl ! j)) \<and>
                         regexp (compiledRoutes rl ! j) (path req) \<noteq> None))"
proof -
  from assms have f: "find_in p (compiledRoutes rl) req = Some m" by (simp add: findRoute_def)
  then have "List.find (\<lambda>r. http_method req \<in> set (methods r) \<and> regexp r (path req) \<noteq> None)
               (compiledRoutes rl) = Some (matched m)"
    using find_in_find[of p "compiledRoutes rl" req] by simp
  then obtain i where "i < length (compiledRoutes rl)"
    "http_method req \<in> set (methods (compiledRoutes rl ! i)) \<and>
       regexp (compiledRoutes rl ! i) (path req) \<noteq> None"
    "matched m = compiledRoutes rl ! i"
    "\<forall>j < i. \<not> (http_method req \<in> set (methods (compiledRoutes rl ! j)) \<and>
                         regexp (compiledRoutes rl ! j) (path req) \<noteq> None)"
    unfolding find_Some_iff by blast
  with find_in_groups[OF f] show ?thesis by auto
qed

lemma routingMiddleware_not_found:
  assumes "findRoute p rl req = None"
  shows "\<exists>e. routingMiddleware p rl req t = Some (NextError e, None) \<and>
             errorCode e = Some ''ROUTE_NOT_FOUND'' \<and> statusCode e = Some 404 \<and> gateway e"
  using assms by (simp add: routingMiddleware_def createError_def GatewayError_def)

lemma routingMiddleware_error_404:
  assumes "routingMiddleware p rl req t = Some (NextError e, c)"
  shows "statusCode e = Some 404 \<and> errorCode e = Some ''ROUTE_NOT_FOUND''"
  using assms
  by (auto simp add: routingMiddleware_def createError_def GatewayError_def Let_def
      split: option.splits)

lemma errorMiddleware_gateway:
  assumes "gateway e"
  shows "errorMiddleware production e rid False t =
           Sent (statusCode e)
             \<lparr> env_error = errorCode e, env_message = message e, env_details = details e,
               env_requestId = rid, env_timestamp = timestamp e, withStack = False \<rparr>"
  using assms by (simp add: errorMiddleware_def)


text \<open>
  C6. \<open>findRoute\<close> returns the first compiled route, in the order of the table, whose
  method list holds the request method and whose pattern matches the path: no route before
  it has both. When no route that matches the path lists the method (in particular when the
  path matches a route and only the method is wrong), the routing middleware passes on
  \<open>ROUTE_NOT_FOUND\<close> with status 404, which the error handler sends as 404; an error of
  the routing middleware never has another status. Status 405 is the answer of
  \<open>validateMethod\<close>, given exactly when the verb is outside the list of allowed methods.
\<close>

theorem first_matching_route_or_404:
  "map_option matched (findRoute p rl req) =
     List.find (\<lambda>r. http_method req \<in> set (methods r) \<and> regexp r (path req) \<noteq> None)
       (compiledRoutes rl)
   \<and> (findRoute p rl req = Some m \<longrightarrow>
        (\<exists>i < length (compiledRoutes rl).
           compiledRoutes rl ! i = matched m \<and>
           http_method req \<in> set (methods (matched m)) \<and>
           regexp (matched m) (path req) = Some (groups m) \<and>
           (\<forall>j < i. \<not> (http_method req \<in> set (methods (compiledRoutes rl ! j)) \<and>
                         regexp (compiledRoutes rl ! j) (path req) \<noteq> None))))
   \<and> ((\<forall>r \<in> set (compiledRoutes rl).
          regexp r (path req) \<noteq> None \<longrightarrow> http_method req \<notin> set (methods r)) \<longrightarrow>
        (case routingMiddleware p rl req t of
           Some (NextError e, None) \<Rightarrow>
             errorCode e = Some ''ROUTE_NOT_FOUND'' \<and> statusCode e = Some 404 \<and>
             (case errorMiddleware production e (requestId req) False t' of
                Sent st env \<Rightarrow> st = Some 404 \<and> env_error env = Some ''ROUTE_NOT_FOUND''
              | Delegated x \<Rightarrow> False)
         | _ \<Rightarrow> False))
   \<and> (case routingMiddleware p rl req t of
         Some (NextError e, c) \<Rightarrow> statusCode e = Some 404
       | _ \<Rightarrow> True)
   \<and> (validateMethod req t = Next) = (http_method req \<in> set allowedMethods)
   \<and> (case validateMethod req t of
         Replied st env \<Rightarrow> st = 405 \<and> http_method req \<notin> set allowedMethods
       | Next \<Rightarrow> http_method req \<in> set allowedMethods
       | _ \<Rightarrow> False)"
proof (intro conjI impI)
  show "map_option matched (findRoute p rl req) =
     List.find (\<lambda>r. http_method req \<in> set (methods r) \<and> regexp r (path req) \<noteq> None)
       (compiledRoutes rl)"
    by (simp add: findRoute_def find_in_find)
next
  assume "findRoute p rl req = Some m"
  then show "\<exists>i < length (compiledRoutes rl).
           compiledRoutes rl ! i = matched m \<and>
           http_method req \<in> set (methods (matched m)) \<and>
           regexp (matched m) (path req) = Some (groups m) \<and>
           (\<forall>j < i. \<not> (http_method req \<in> set (methods (compiledRoutes rl ! j)) \<and>
                         regexp (compiledRoutes rl ! j) (path req) \<noteq> None))"
    by (rule findRoute_first)
next
  assume a: "\<forall>r \<in> set (compiledRoutes rl).
          regexp r (path req) \<noteq> None \<longrightarrow> http_method req \<notin> set (methods r)"
  have "find_in p (compiledRoutes rl) req = None"
    unfolding find_in_None using a by blast
  then have "findRoute p rl req = None" by (simp add: findRoute_def)
  then obtain e where e: "routingMiddleware p rl req t = Some (NextError e, None)"
    "errorCode e = Some ''ROUTE_NOT_FOUND''" "statusCode e = Some 404" "gateway e"
    using routingMiddleware_not_found by blast
  then show "case routingMiddleware p rl req t of
           Some (NextError e, None) \<Rightarrow>
             errorCode e = Some ''ROUTE_NOT_FOUND'' \<and> statusCode e = Some 404 \<and>
             (case errorMiddleware production e (requestId req) False t' of
                Sent st env \<Rightarrow> st = Some 404 \<and> env_error env = Some ''ROUTE_NOT_FOUND''
              | Delegated x \<Rightarrow> False)
         | _ \<Rightarrow> False"
    by (simp add: errorMiddleware_gateway)
next
  show "case routingMiddleware p rl req t of
         Some (NextError e, c) \<Rightarrow> statusCode e = Some 404
       | _ \<Rightarrow> True"
    using routingMiddleware_error_404[of p rl req t]
    by (auto split: option.splits prod.splits middleware_result.splits)
next
  show "(validateMethod req t = Next) = (http_method req \<in> set allowedMethods)"
    by (simp add: validateMethod_def)
next
  show "case validateMethod req t of
         Replied st env \<Rightarrow> st = 405 \<and> http_method req \<notin> set allowedMethods
       | Next \<Rightarrow> http_method req \<in> set allowedMethods
       | _ \<Rightarrow> False"
    by (simp add: validateMethod_def)
qed

theorem first_matching_route_or_404_witness:
  "map_option (\<lambda>m. target (matched m))
     (findRoute exact_regexp demo_routing (demo_request\<lparr>http_method := ''POST''\<rparr>))
     = Some ''http://localhost:3005''
   \<and> (case routingMiddleware exact_regexp demo_routing
              (demo_request\<lparr>http_method := ''DELETE'', path := ''/api/auth''\<rparr>) 1000 of
         Some (NextError e, None) \<Rightarrow>
           errorCode e = Some ''ROUTE_NOT_FOUND'' \<and> statusCode e = Some 404
       | _ \<Rightarrow> False)
   \<and> validateMethod (demo_request\<lparr>http_method := ''TRACE''\<rparr>) 1000
       = Replied 405
           \<lparr> env_error = Some ''Method Not Allowed'',
             env_message = ''HTTP method TRACE is not supported'',
             env_details = None, env_requestId = ''req-1'',
             env_timestamp = Some 1000, withStack = False \<rparr>"
proof -
  have post: "findRoute exact_regexp demo_routing (demo_request\<lparr>http_method := ''POST''\<rparr>) =
      Some \<lparr> matched = compiledRoutes demo_routing ! 1, groups = [Some ''/api/users''],
              match_params = [] \<rparr>"
    by (simp add: findRoute_def demo_routing_def initializeRoutes_def demo_routes_def
        normalizeRoute_def compileRoute_def route.defs Let_def demo_request_def
        exact_regexp_def extractParams_def)
  have 1: "map_option (\<lambda>m. target (matched m))
     (findRoute exact_regexp demo_routing (demo_request\<lparr>http_method := ''POST''\<rparr>))
     = Some ''http://localhost:3005''"
    using first_matching_route_or_404[where p = exact_regexp and rl = demo_routing
        and req = "demo_request\<lparr>http_method := ''POST''\<rparr>"
        and m = "\<lparr> matched = compiledRoutes demo_routing ! 1, groups = [Some ''/api/users''],
              match_params = [] \<rparr>"] post
    by (simp add: demo_routing_def initializeRoutes_def demo_routes_def
        normalizeRoute_def compileRoute_def route.defs Let_def)
  have hyp: "\<forall>r \<in> set (compiledRoutes demo_routing).
          regexp r (path (demo_request\<lparr>http_method := ''DELETE'', path := ''/api/auth''\<rparr>)) \<noteq> None \<longrightarrow>
          http_method (demo_request\<lparr>http_method := ''DELETE'', path := ''/api/auth''\<rparr>)
            \<notin> set (methods r)"
    by (simp add: demo_routing_def initializeRoutes_def demo_routes_def
        normalizeRoute_def compileRoute_def route.defs Let_def exact_regexp_def)
  have "case routingMiddleware exact_regexp demo_routing
              (demo_request\<lparr>http_method := ''DELETE'', path := ''/api/auth''\<rparr>) 1000 of
         Some (NextError e, None) \<Rightarrow>
           errorCode e = Some ''ROUTE_NOT_FOUND'' \<and> statusCode e = Some 404 \<and>
           (case errorMiddleware False e
                   (requestId (demo_request\<lparr>http_method := ''DELETE'', path := ''/api/auth''\<rparr>))
                   False 1000 of
              Sent st env \<Rightarrow> st = Some 404 \<and> env_error env = Some ''ROUTE_NOT_FOUND''
            | Delegated x \<Rightarrow> False)
       | _ \<Rightarrow> False"
    using first_matching_route_or_404[where p = exact_regexp and rl = demo_routing
        and req = "demo_request\<lparr>http_method := ''DELETE'', path := ''/api/auth''\<rparr>"
        and t = 1000 and production = False and t' = 1000,
        THEN conjunct2, THEN conjunct2, THEN conjunct1] hyp
    by (rule mp)
  then have 2: "case routingMiddleware exact_regexp demo_routing
              (demo_request\<lparr>http_method := ''DELETE'', path := ''/api/auth''\<rparr>) 1000 of
         Some (NextError e, None) \<Rightarrow>
           errorCode e = Some ''ROUTE_NOT_FOUND'' \<and> statusCode e = Some 404
       | _ \<Rightarrow> False"
    by (simp split: option.splits prod.splits middleware_result.splits)
  have 3: "validateMethod (demo_request\<lparr>http_method := ''TRACE''\<rparr>) 1000
       = Replied 405
           \<lparr> env_error = Some ''Method Not Allowed'',
             env_message = ''HTTP method TRACE is not supported'',
             env_details = None, env_requestId = ''req-1'',
             env_timestamp = Some 1000, withStack = False \<rparr>"
    by (simp add: validateMethod_def allowedMethods_def demo_request_def)
  from 1 2 3 show ?thesis by simp
qed

subsection \<open>The target URL\<close>

lemma replace_anchored_prefix:
  assumes "literal_source src"
  shows "replace_anchored src (src @ rest) = Some rest"
  using assms by (simp add: replace_anchored_def startsWith_def)

lemma startsWith_slash:
  "startsWith p ''/'' = (p \<noteq> [] \<and> hd p = CHR ''/'')"
  by (cases p) (simp_all add: startsWith_def)

text \<open>Where the path is the text of the pattern, in the case as written, followed by nothing
  or by a slash and more, the text is cut off and the rest is what the upstream gets.\<close>

lemma buildTargetUrl_literal_prefix:
  assumes s: "stripPath r" and l: "literal_source (strip_suffix ''/*'' (originalPath r))"
    and p: "path req = strip_suffix ''/*'' (originalPath r) @ rest"
    and b: "rest = [] \<or> hd rest = CHR ''/''"
  shows "buildTargetUrl r req =
     Some (strip_suffix ''/'' (target r)
           @ (if rest = [] then ''/'' else rest)
           @ (if query req = [] then [] else ''?'' @ URLSearchParams_toString (query req)))"
proof -
  have rep: "replace_anchored (strip_suffix ''/*'' (originalPath r)) (path req) = Some rest"
    unfolding p using l by (rule replace_anchored_prefix)
  show ?thesis
  proof (cases "rest = []")
    case True
    then show ?thesis
      by (simp add: buildTargetUrl_def s rep Let_def startsWith_slash)
  next
    case False
    with b have "hd rest = CHR ''/''" by simp
    with False show ?thesis
      by (simp add: buildTargetUrl_def s rep Let_def startsWith_slash)
  qed
qed

lemma toLowerCase_examples:
  "toLowerCase ''api'' = ''api''" "toLowerCase ''x'' = ''x''" "toLowerCase ''API'' = ''api''"
  "toLowerCase ''X'' = ''x''" "toLowerCase ''users'' = ''users''" "toLowerCase [] = []"
  "toLowerCase ''y'' = ''y''" "toLowerCase ''auth'' = ''auth''" "toLowerCase ''login'' = ''login''"
  by (simp_all add: toLowerCase_def lower_char_def)

lemma query_q1: "URLSearchParams_toString [(''q'', ''1'')] = ''q=1''"
  by (simp add: URLSearchParams_toString_def form_encode_def form_encode_char_def
      form_unreserved_def)

lemmas strip_defs = strip_routing_def strip_routes_def initializeRoutes_def normalizeRoute_def
  compileRoute_def route.defs segment_regexp_def strip_suffix_def is_parameter_def
  demo_request_def routingMiddleware_def findRoute_def buildTargetUrl_def replace_anchored_def
  literal_source_def regex_special_def startsWith_def or_num_def or_str_def truthy_num_def
  truthy_str_def extractParams_def routed_to_def Let_def

text \<open>
  C8. The target URL of a route with \<open>stripPath\<close>. The table holds three such routes: two
  with base \<open>http://u\<close>, one with pattern \<open>/api/x\<close> and one with pattern
  \<open>/api/users/:id\<close>, and the \<open>POST\<close> route \<open>/api/auth\<close> of the shipped
  configuration.
  \<open>GET /api/x?q=1\<close> is sent to \<open>http://u/?q=1\<close>: the matched prefix is removed and the
  empty rest becomes a slash. But the prefix is removed by a regular expression made of the
  pattern's text, with the case as written, while the route is matched without regard to
  case and with its parameters: \<open>GET /API/X?q=1\<close> is matched by the first route and sent to
  \<open>http://u/API/X?q=1\<close>, and \<open>GET /api/users/42\<close> is matched by the second and sent to
  \<open>http://u/api/users/42\<close>, both with the whole path. And the request of the
  specification's example, \<open>GET /api/x/y?q=1\<close>, is matched by no route: the pattern matches
  to the end of the path, and the answer is \<open>ROUTE_NOT_FOUND\<close> with 404, so nothing is sent
  to \<open>http://u/y?q=1\<close>. So is the request of the README's example,
  \<open>POST /api/auth/login\<close>.
\<close>

theorem matched_prefix_is_not_removed:
  "map stripPath (compiledRoutes strip_routing) = [True, True, True]
   \<and> map originalPath (compiledRoutes strip_routing)
       = [''/api/x'', ''/api/users/:id'', ''/api/auth'']
   \<and> map target (compiledRoutes strip_routing)
       = [''http://u'', ''http://u'', ''http://localhost:3002'']
   \<and> routed_to (routingMiddleware segment_regexp strip_routing
                  (demo_request\<lparr>path := ''/api/x'', query := [(''q'', ''1'')]\<rparr>) 0)
       = Some ''http://u/?q=1''
   \<and> routed_to (routingMiddleware segment_regexp strip_routing
                  (demo_request\<lparr>path := ''/API/X'', query := [(''q'', ''1'')]\<rparr>) 0)
       = Some ''http://u/API/X?q=1''
   \<and> routed_to (routingMiddleware segment_regexp strip_routing
                  (demo_request\<lparr>path := ''/api/users/42'', query := []\<rparr>) 0)
       = Some ''http://u/api/users/42''
   \<and> (case routingMiddleware segment_regexp strip_routing
               (demo_request\<lparr>path := ''/api/x/y'', query := [(''q'', ''1'')]\<rparr>) 0 of
         Some (NextError e, None) \<Rightarrow>
           errorCode e = Some ''ROUTE_NOT_FOUND'' \<and> statusCode e = Some 404
       | _ \<Rightarrow> False)
   \<and> (case routingMiddleware segment_regexp strip_routing
               (demo_request\<lparr>http_method := ''POST'', path := ''/api/auth/login''\<rparr>) 0 of
         Some (NextError e, None) \<Rightarrow>
           errorCode e = Some ''ROUTE_NOT_FOUND'' \<and> statusCode e = Some 404
       | _ \<Rightarrow> False)"
proof (intro conjI)
  show "map stripPath (compiledRoutes strip_routing) = [True, True, True]"
    and "map originalPath (compiledRoutes strip_routing)
       = [''/api/x'', ''/api/users/:id'', ''/api/auth'']"
    and "map target (compiledRoutes strip_routing)
       = [''http://u'', ''http://u'', ''http://localhost:3002'']"
    by (simp_all add: strip_routing_def strip_routes_def initializeRoutes_def normalizeRoute_def
        compileRoute_def route.defs)
  show "routed_to (routingMiddleware segment_regexp strip_routing
                  (demo_request\<lparr>path := ''/api/x'', query := [(''q'', ''1'')]\<rparr>) 0)
       = Some ''http://u/?q=1''"
    by (simp add: strip_defs toLowerCase_examples query_q1)
  show "routed_to (routingMiddleware segment_regexp strip_routing
                  (demo_request\<lparr>path := ''/API/X'', query := [(''q'', ''1'')]\<rparr>) 0)
       = Some ''http://u/API/X?q=1''"
    by (simp add: strip_defs toLowerCase_examples query_q1)
  show "routed_to (routingMiddleware segment_regexp strip_routing
                  (demo_request\<lparr>path := ''/api/users/42'', query := []\<rparr>) 0)
       = Some ''http://u/api/users/42''"
    by (simp add: strip_defs toLowerCase_examples)
  show "case routingMiddleware segment_regexp strip_routing
               (demo_request\<lparr>path := ''/api/x/y'', query := [(''q'', ''1'')]\<rparr>) 0 of
         Some (NextError e, None) \<Rightarrow>
           errorCode e = Some ''ROUTE_NOT_FOUND'' \<and> statusCode e = Some 404
       | _ \<Rightarrow> False"
    by (simp add: strip_defs toLowerCase_examples createError_def GatewayError_def)
  show "case routingMiddleware segment_regexp strip_routing
               (demo_request\<lparr>http_method := ''POST'', path := ''/api/auth/login''\<rparr>) 0 of
         Some (NextError e, None) \<Rightarrow>
           errorCode e = Some ''ROUTE_NOT_FOUND'' \<and> statusCode e = Some 404
       | _ \<Rightarrow> False"
    by (simp add: strip_defs toLowerCase_examples createError_def GatewayError_def)
qed

subsection \<open>The error mapper\<close>

lemma gateway_mapUpstreamError: "gateway (mapUpstreamError error svc t)"
  by (simp add: mapUpstreamError_def GatewayError_def Let_def split: option.splits)

lemma mapUpstreamError_shape:
  "code (mapUpstreamError error svc t) = None"
  "name (mapUpstreamError error svc t) = ''GatewayError''"
  "response (mapUpstreamError error svc t) = None"
  by (simp_all add: mapUpstreamError_def GatewayError_def Let_def split: option.splits)

text \<open>
  C9. The mapper applied to an error that is already mapped. A \<open>GatewayError\<close> has no
  \<open>code\<close>, the name \<open>GatewayError\<close> and no \<open>response\<close>, and \<open>mapUpstreamError\<close> does
  not test for one, so a second pass takes the last branch whatever the first pass gave: it
  returns \<open>BAD_GATEWAY\<close> with 502, the message of an unknown error, and the first result's
  message as \<open>originalError\<close>. A refused connection maps to \<open>SERVICE_UNAVAILABLE\<close> with
  503, and that error maps to \<open>BAD_GATEWAY\<close> with 502, another error. The
  \<open>CIRCUIT_BREAKER_OPEN\<close> and \<open>GATEWAY_TIMEOUT\<close> errors that the retry loop hands to the
  mapper are rewritten in the same way. \<open>ErrorHandler.middleware\<close> has the test the mapper
  lacks: it sends a \<open>GatewayError\<close> with its own status, code, message, details and
  timestamp.
\<close>

theorem mapper_rewrites_mapped_errors:
  "mapUpstreamError (mapUpstreamError error svc t) svc' t' =
     GatewayError (''Unknown error from service '' @ svc') 502 ''BAD_GATEWAY''
       (Some (JObject [(''service'', JString svc'),
                       (''originalError'', JString (message (mapUpstreamError error svc t)))])) t'
   \<and> mapUpstreamError (axios_error ''ECONNREFUSED'' ''connect ECONNREFUSED 127.0.0.1:3001'')
        ''localhost:3001'' 1000 =
       GatewayError ''Service localhost:3001 is unavailable'' 503 ''SERVICE_UNAVAILABLE''
         (Some (JObject [(''service'', JString ''localhost:3001''),
                         (''originalError'', JString ''connect ECONNREFUSED 127.0.0.1:3001'')]))
         1000
   \<and> mapUpstreamError
        (mapUpstreamError (axios_error ''ECONNREFUSED'' ''connect ECONNREFUSED 127.0.0.1:3001'')
           ''localhost:3001'' 1000)
        ''localhost:3001'' 1000 =
       GatewayError ''Unknown error from service localhost:3001'' 502 ''BAD_GATEWAY''
         (Some (JObject [(''service'', JString ''localhost:3001''),
                         (''originalError'', JString ''Service localhost:3001 is unavailable'')]))
         1000
   \<and> mapUpstreamError
        (mapUpstreamError (axios_error ''ECONNREFUSED'' ''connect ECONNREFUSED 127.0.0.1:3001'')
           ''localhost:3001'' 1000)
        ''localhost:3001'' 1000
       \<noteq> mapUpstreamError (axios_error ''ECONNREFUSED'' ''connect ECONNREFUSED 127.0.0.1:3001'')
           ''localhost:3001'' 1000
   \<and> errorCode (mapUpstreamError (handleCircuitBreakerError svc st t) svc' t')
       = Some ''BAD_GATEWAY''
   \<and> statusCode (mapUpstreamError (handleCircuitBreakerError svc st t) svc' t') = Some 502
   \<and> errorCode (mapUpstreamError (createError ''Request timeout'' 504 ''GATEWAY_TIMEOUT'' d t)
                   svc' t') = Some ''BAD_GATEWAY''
   \<and> errorMiddleware production (GatewayError m sc ec d t) rid False t' =
       Sent (Some sc)
         \<lparr> env_error = Some ec, env_message = m, env_details = d, env_requestId = rid,
           env_timestamp = Some t, withStack = False \<rparr>"
proof (intro conjI)
  show "mapUpstreamError (mapUpstreamError error svc t) svc' t' =
     GatewayError (''Unknown error from service '' @ svc') 502 ''BAD_GATEWAY''
       (Some (JObject [(''service'', JString svc'),
                       (''originalError'', JString (message (mapUpstreamError error svc t)))])) t'"
    by (subst mapUpstreamError_def) (simp add: mapUpstreamError_shape)
  show "mapUpstreamError (axios_error ''ECONNREFUSED'' ''connect ECONNREFUSED 127.0.0.1:3001'')
        ''localhost:3001'' 1000 =
       GatewayError ''Service localhost:3001 is unavailable'' 503 ''SERVICE_UNAVAILABLE''
         (Some (JObject [(''service'', JString ''localhost:3001''),
                         (''originalError'', JString ''connect ECONNREFUSED 127.0.0.1:3001'')]))
         1000"
    by (simp add: mapUpstreamError_def axios_error_def native_error_def)
  show "mapUpstreamError
        (mapUpstreamError (axios_error ''ECONNREFUSED'' ''connect ECONNREFUSED 127.0.0.1:3001'')
           ''localhost:3001'' 1000)
        ''localhost:3001'' 1000 =
       GatewayError ''Unknown error from service localhost:3001'' 502 ''BAD_GATEWAY''
         (Some (JObject [(''service'', JString ''localhost:3001''),
                         (''originalError'', JString ''Service localhost:3001 is unavailable'')]))
         1000"
    by (simp add: mapUpstreamError_def axios_error_def native_error_def GatewayError_def)
  show "mapUpstreamError
        (mapUpstreamError (axios_error ''ECONNREFUSED'' ''connect ECONNREFUSED 127.0.0.1:3001'')
           ''localhost:3001'' 1000)
        ''localhost:3001'' 1000
       \<noteq> mapUpstreamError (axios_error ''ECONNREFUSED'' ''connect ECONNREFUSED 127.0.0.1:3001'')
           ''localhost:3001'' 1000"
    by (simp add: mapUpstreamError_def axios_error_def native_error_def GatewayError_def)
  show "errorCode (mapUpstreamError (handleCircuitBreakerError svc st t) svc' t')
       = Some ''BAD_GATEWAY''"
    by (simp add: mapUpstreamError_def handleCircuitBreakerError_def GatewayError_def)
  show "statusCode (mapUpstreamError (handleCircuitBreakerError svc st t) svc' t') = Some 502"
    by (simp add: mapUpstreamError_def handleCircuitBreakerError_def GatewayError_def)
  show "errorCode (mapUpstreamError (createError ''Request timeout'' 504 ''GATEWAY_TIMEOUT'' d t)
                   svc' t') = Some ''BAD_GATEWAY''"
    by (simp add: mapUpstreamError_def createError_def GatewayError_def)
  show "errorMiddleware production (GatewayError m sc ec d t) rid False t' =
       Sent (Some sc)
         \<lparr> env_error = Some ec, env_message = m, env_details = d, env_requestId = rid,
           env_timestamp = Some t, withStack = False \<rparr>"
    by (simp add: errorMiddleware_def GatewayError_def)
qed

subsection \<open>The rate limiter\<close>





lemma getTierConfig_inherited:
  "rateLimitTiers rl n = None \<Longrightarrow> n \<in> set object_prototype_names \<Longrightarrow>
     getTierConfig rl n = Inherited"
  by (simp add: getTierConfig_def)

lemma checkRateLimit_disconnected:
  assumes "\<not> isConnected rl"
  shows "checkRateLimit rl req tierName t =
           (\<lparr>allowed = True, remaining = - 1, resetTime = Some (t + 60000), tier = None\<rparr>, rl)"
  using assms by (simp add: checkRateLimit_def)

lemma checkRateLimit_get_fails:
  assumes "isConnected rl" and "\<not> responds (redisClient rl) (execs (redisClient rl))"
  shows "allowed (fst (checkRateLimit rl req tierName t))"
    and "remaining (fst (checkRateLimit rl req tierName t)) = - 1"
  using assms
  by (simp_all add: checkRateLimit_def nan_window_def exec_get_def Let_def
      split: tier_value.splits)

lemma checkRateLimit_nan_window:
  assumes "isConnected rl"
    and "getTierConfig rl tierName = Inherited \<or>
         (getTierConfig rl tierName = Config tc \<and> windowMs tc = 0)"
  shows "allowed (fst (checkRateLimit rl req tierName t))"
    and "remaining (fst (checkRateLimit rl req tierName t)) = - 1"
    and "counters (redisClient (snd (checkRateLimit rl req tierName t))) = counters (redisClient rl)"
  using assms
  by (auto simp add: checkRateLimit_def nan_window_def exec_get_def Let_def)



lemma checkRateLimit_incr_fails:
  assumes "isConnected rl" and "responds (redisClient rl) (execs (redisClient rl))"
    and "\<not> responds (redisClient rl) (execs (redisClient rl) + 1)"
    and "getTierConfig rl tierName = Config tc" and "windowMs tc \<noteq> 0"
    and "(case counters (redisClient rl)
                (getRateLimitKey req tierName @ '':'' @
                 show_int ((t div windowMs tc) * windowMs tc)) of
            None \<Rightarrow> 0 | Some n \<Rightarrow> n) < requests tc"
  shows "allowed (fst (checkRateLimit rl req tierName t))"
    and "remaining (fst (checkRateLimit rl req tierName t)) = - 1"
  using assms
  by (simp_all add: checkRateLimit_def exec_get_def exec_incr_expire_def Let_def)

lemma checkRateLimit_denied_only:
  assumes "\<not> allowed (fst (checkRateLimit rl req tierName t))"
  shows "isConnected rl \<and> responds (redisClient rl) (execs (redisClient rl)) \<and>
         (case getTierConfig rl tierName of
            Inherited \<Rightarrow> False
          | Config tc \<Rightarrow>
              windowMs tc \<noteq> 0 \<and>
              requests tc
                \<le> (case counters (redisClient rl)
                          (getRateLimitKey req tierName @ '':'' @
                           show_int ((t div windowMs tc) * windowMs tc)) of
                     None \<Rightarrow> 0 | Some n \<Rightarrow> n))"
  using assms
  by (auto simp add: checkRateLimit_def nan_window_def exec_get_def exec_incr_expire_def Let_def
      split: if_splits tier_value.splits)

lemma fst_rateLimitMiddleware:
  "fst (rateLimitMiddleware rl routeTier req res t t') =
     (let userTier = (case user req of None \<Rightarrow> routeTier
                      | Some u \<Rightarrow> or_str (user_tier u) routeTier);
          d = fst (checkRateLimit rl req userTier t)
      in if headersSent res \<or> getTierConfig rl userTier = Inherited \<or> allowed d then Next
         else NextError (handleRateLimitError (remaining d) (resetTime d) (tier d) t'))"
  by (simp add: rateLimitMiddleware_def Let_def split: prod.splits tier_value.splits)

lemma handleRateLimitError_code:
  "errorCode (handleRateLimitError a b c d) = Some ''RATE_LIMIT_EXCEEDED''"
  "statusCode (handleRateLimitError a b c d) = Some 429"
  by (simp_all add: handleRateLimitError_def GatewayError_def)


lemma demo_window_key: "show_int 1699999980000 = ''1699999980000''"
  by (simp add: show_int_def digits10.simps)


text \<open>The same happens for a tier named like a property that every object inherits: the
  lookup finds that property instead of the default tier.\<close>

lemma inherited_tier_fails_open:
  "getTierConfig demo_limiter ''constructor'' = Inherited"
  "fst (checkRateLimit demo_limiter demo_request ''constructor'' 1700000030000)
     = \<lparr>allowed = True, remaining = - 1, resetTime = None, tier = None\<rparr>"
  "counters (redisClient (snd (checkRateLimit demo_limiter demo_request ''constructor''
                                 1700000030000)))
     = counters (redisClient demo_limiter)"
  by (simp_all add: demo_limiter_def demo_redis_def getTierConfig_def
      object_prototype_names_def checkRateLimit_def nan_window_def exec_get_def Let_def)




text \<open>
  C5. The limiter fails open. With the store not connected, with the read round trip
  rejected, or with the increment round trip rejected after a count below the limit, the
  decision is \<open>allowed = true\<close> with \<open>remaining = -1\<close>; so it is when a step other than
  a round trip throws, as with a window of zero or a tier found among the inherited
  properties. The middleware passes the request on (\<open>next()\<close>) whenever the store is not
  connected or the read is rejected, and the only thing it ever hands to \<open>next\<close> as an
  error is \<open>RATE_LIMIT_EXCEEDED\<close> (429), which it does only when the store is connected,
  has answered the read, and the count read has reached the limit of the effective tier.
\<close>

theorem rate_limiter_fails_open:
  "(\<not> isConnected rl \<longrightarrow>
      allowed (fst (checkRateLimit rl req tierName t)) \<and>
      remaining (fst (checkRateLimit rl req tierName t)) = - 1)
   \<and> (isConnected rl \<and> \<not> responds (redisClient rl) (execs (redisClient rl)) \<longrightarrow>
        allowed (fst (checkRateLimit rl req tierName t)) \<and>
        remaining (fst (checkRateLimit rl req tierName t)) = - 1)
   \<and> (isConnected rl \<and> responds (redisClient rl) (execs (redisClient rl)) \<and>
        \<not> responds (redisClient rl) (execs (redisClient rl) + 1) \<and>
        getTierConfig rl tierName = Config tc \<and> windowMs tc \<noteq> 0 \<and>
        (case counters (redisClient rl)
                (getRateLimitKey req tierName @ '':'' @
                 show_int ((t div windowMs tc) * windowMs tc)) of
           None \<Rightarrow> 0 | Some n \<Rightarrow> n) < requests tc \<longrightarrow>
        allowed (fst (checkRateLimit rl req tierName t)) \<and>
        remaining (fst (checkRateLimit rl req tierName t)) = - 1)
   \<and> (isConnected rl \<and>
        (getTierConfig rl tierName = Inherited \<or>
         getTierConfig rl tierName = Config tc \<and> windowMs tc = 0) \<longrightarrow>
        allowed (fst (checkRateLimit rl req tierName t)) \<and>
        remaining (fst (checkRateLimit rl req tierName t)) = - 1)
   \<and> (\<not> isConnected rl \<or> \<not> responds (redisClient rl) (execs (redisClient rl)) \<longrightarrow>
        fst (rateLimitMiddleware rl routeTier req res t t') = Next)
   \<and> (let userTier = (case user req of None \<Rightarrow> routeTier
                        | Some u \<Rightarrow> or_str (user_tier u) routeTier)
        in case fst (rateLimitMiddleware rl routeTier req res t t') of
             Next \<Rightarrow> True
           | NextError e \<Rightarrow>
               errorCode e = Some ''RATE_LIMIT_EXCEEDED'' \<and> statusCode e = Some 429 \<and>
               isConnected rl \<and> responds (redisClient rl) (execs (redisClient rl)) \<and>
               (case getTierConfig rl userTier of
                  Inherited \<Rightarrow> False
                | Config c \<Rightarrow>
                    windowMs c \<noteq> 0 \<and>
                    requests c
                      \<le> (case counters (redisClient rl)
                                (getRateLimitKey req userTier @ '':'' @
                                 show_int ((t div windowMs c) * windowMs c)) of
                           None \<Rightarrow> 0 | Some n \<Rightarrow> n))
           | Forwarded r \<Rightarrow> False
           | Replied st e \<Rightarrow> False)"
proof (intro conjI impI)
  assume "\<not> isConnected rl"
  then show "allowed (fst (checkRateLimit rl req tierName t))"
    and "remaining (fst (checkRateLimit rl req tierName t)) = - 1"
    by (simp_all add: checkRateLimit_disconnected)
next
  assume "isConnected rl \<and> \<not> responds (redisClient rl) (execs (redisClient rl))"
  then have c: "isConnected rl" and n: "\<not> responds (redisClient rl) (execs (redisClient rl))"
    by simp_all
  show "allowed (fst (checkRateLimit rl req tierName t))"
    using c n by (rule checkRateLimit_get_fails)
  show "remaining (fst (checkRateLimit rl req tierName t)) = - 1"
    using c n by (rule checkRateLimit_get_fails)
next
  assume a: "isConnected rl \<and> responds (redisClient rl) (execs (redisClient rl)) \<and>
        \<not> responds (redisClient rl) (execs (redisClient rl) + 1) \<and>
        getTierConfig rl tierName = Config tc \<and> windowMs tc \<noteq> 0 \<and>
        (case counters (redisClient rl)
                (getRateLimitKey req tierName @ '':'' @
                 show_int ((t div windowMs tc) * windowMs tc)) of
           None \<Rightarrow> 0 | Some n \<Rightarrow> n) < requests tc"
  then have c: "isConnected rl" and r1: "responds (redisClient rl) (execs (redisClient rl))"
    and r2: "\<not> responds (redisClient rl) (execs (redisClient rl) + 1)"
    and cfg: "getTierConfig rl tierName = Config tc" and nz: "windowMs tc \<noteq> 0"
    and lt: "(case counters (redisClient rl)
                (getRateLimitKey req tierName @ '':'' @
                 show_int ((t div windowMs tc) * windowMs tc)) of
           None \<Rightarrow> 0 | Some n \<Rightarrow> n) < requests tc"
    by simp_all
  show "allowed (fst (checkRateLimit rl req tierName t))"
    using c r1 r2 cfg nz lt by (rule checkRateLimit_incr_fails)
  show "remaining (fst (checkRateLimit rl req tierName t)) = - 1"
    using c r1 r2 cfg nz lt by (rule checkRateLimit_incr_fails)
next
  assume a: "isConnected rl \<and>
        (getTierConfig rl tierName = Inherited \<or>
         getTierConfig rl tierName = Config tc \<and> windowMs tc = 0)"
  then have c: "isConnected rl"
    and n: "getTierConfig rl tierName = Inherited \<or>
         (getTierConfig rl tierName = Config tc \<and> windowMs tc = 0)" by simp_all
  show "allowed (fst (checkRateLimit rl req tierName t))"
    using c n by (rule checkRateLimit_nan_window)
  show "remaining (fst (checkRateLimit rl req tierName t)) = - 1"
    using c n by (rule checkRateLimit_nan_window)
next
  assume a: "\<not> isConnected rl \<or> \<not> responds (redisClient rl) (execs (redisClient rl))"
  define userTier where "userTier = (case user req of None \<Rightarrow> routeTier
                        | Some u \<Rightarrow> or_str (user_tier u) routeTier)"
  have "allowed (fst (checkRateLimit rl req userTier t))"
    using a checkRateLimit_denied_only[of rl req userTier t] by blast
  then show "fst (rateLimitMiddleware rl routeTier req res t t') = Next"
    by (simp add: fst_rateLimitMiddleware Let_def userTier_def)
next
  define userTier where "userTier = (case user req of None \<Rightarrow> routeTier
                        | Some u \<Rightarrow> or_str (user_tier u) routeTier)"
  have "case fst (rateLimitMiddleware rl routeTier req res t t') of
             Next \<Rightarrow> True
           | NextError e \<Rightarrow>
               errorCode e = Some ''RATE_LIMIT_EXCEEDED'' \<and> statusCode e = Some 429 \<and>
               isConnected rl \<and> responds (redisClient rl) (execs (redisClient rl)) \<and>
               (case getTierConfig rl userTier of
                  Inherited \<Rightarrow> False
                | Config c \<Rightarrow>
                    windowMs c \<noteq> 0 \<and>
                    requests c
                      \<le> (case counters (redisClient rl)
                                (getRateLimitKey req userTier @ '':'' @
                                 show_int ((t div windowMs c) * windowMs c)) of
                           None \<Rightarrow> 0 | Some n \<Rightarrow> n))
           | Forwarded r \<Rightarrow> False
           | Replied st e \<Rightarrow> False"
  proof (cases "headersSent res \<or> getTierConfig rl userTier = Inherited \<or>
                allowed (fst (checkRateLimit rl req userTier t))")
    case True
    then show ?thesis by (simp add: fst_rateLimitMiddleware Let_def userTier_def)
  next
    case False
    then have "\<not> allowed (fst (checkRateLimit rl req userTier t))" by simp
    from checkRateLimit_denied_only[OF this] False show ?thesis
      by (simp add: fst_rateLimitMiddleware Let_def userTier_def handleRateLimitError_code)
  qed
  then show "let userTier = (case user req of None \<Rightarrow> routeTier
                        | Some u \<Rightarrow> or_str (user_tier u) routeTier)
        in case fst (rateLimitMiddleware rl routeTier req res t t') of
             Next \<Rightarrow> True
           | NextError e \<Rightarrow>
               errorCode e = Some ''RATE_LIMIT_EXCEEDED'' \<and> statusCode e = Some 429 \<and>
               isConnected rl \<and> responds (redisClient rl) (execs (redisClient rl)) \<and>
               (case getTierConfig rl userTier of
                  Inherited \<Rightarrow> False
                | Config c \<Rightarrow>
                    windowMs c \<noteq> 0 \<and>
                    requests c
                      \<le> (case counters (redisClient rl)
                                (getRateLimitKey req userTier @ '':'' @
                                 show_int ((t div windowMs c) * windowMs c)) of
                           None \<Rightarrow> 0 | Some n \<Rightarrow> n))
           | Forwarded r \<Rightarrow> False
           | Replied st e \<Rightarrow> False"
    unfolding Let_def userTier_def .
qed

theorem rate_limiter_fails_open_witness:
  "fst (checkRateLimit (demo_limiter\<lparr>isConnected := False\<rparr>) demo_request ''basic'' 1700000030000)
     = \<lparr>allowed = True, remaining = - 1, resetTime = Some 1700000090000, tier = None\<rparr>
   \<and> allowed (fst (checkRateLimit
         (demo_limiter\<lparr>redisClient := demo_redis\<lparr>responds := (\<lambda>k. False)\<rparr>\<rparr>)
         demo_request ''basic'' 1700000030000))
   \<and> remaining (fst (checkRateLimit
         (demo_limiter\<lparr>redisClient := demo_redis\<lparr>responds := (\<lambda>k. False)\<rparr>\<rparr>)
         demo_request ''basic'' 1700000030000)) = - 1
   \<and> remaining (fst (checkRateLimit
         (demo_limiter\<lparr>redisClient := demo_redis\<lparr>responds := (\<lambda>k. k = 0)\<rparr>\<rparr>)
         demo_request ''basic'' 1700000030000)) = - 1
   \<and> remaining (fst (checkRateLimit demo_limiter demo_request ''constructor'' 1700000030000)) = - 1
   \<and> fst (rateLimitMiddleware (demo_limiter\<lparr>isConnected := False\<rparr>) ''premium'' demo_request
            demo_response 1700000030000 1700000030001) = Next"
proof -
  note T = rate_limiter_fails_open[where req = demo_request and t = 1700000030000
      and res = demo_response and t' = 1700000030001
      and tc = "\<lparr>requests = 100, windowMs = 60000\<rparr>"]
  have 1: "allowed (fst (checkRateLimit (demo_limiter\<lparr>isConnected := False\<rparr>) demo_request
                      ''basic'' 1700000030000)) \<and>
           remaining (fst (checkRateLimit (demo_limiter\<lparr>isConnected := False\<rparr>) demo_request
                      ''basic'' 1700000030000)) = - 1 \<and>
           fst (rateLimitMiddleware (demo_limiter\<lparr>isConnected := False\<rparr>) ''premium'' demo_request
            demo_response 1700000030000 1700000030001) = Next"
    using T[where rl = "demo_limiter\<lparr>isConnected := False\<rparr>" and tierName = "''basic''"
        and routeTier = "''premium''"]
    by simp
  have d1: "fst (checkRateLimit (demo_limiter\<lparr>isConnected := False\<rparr>) demo_request ''basic'' 1700000030000)
     = \<lparr>allowed = True, remaining = - 1, resetTime = Some 1700000090000, tier = None\<rparr>"
    by (simp add: checkRateLimit_def)
  have 2: "allowed (fst (checkRateLimit
         (demo_limiter\<lparr>redisClient := demo_redis\<lparr>responds := (\<lambda>k. False)\<rparr>\<rparr>)
         demo_request ''basic'' 1700000030000)) \<and>
        remaining (fst (checkRateLimit
         (demo_limiter\<lparr>redisClient := demo_redis\<lparr>responds := (\<lambda>k. False)\<rparr>\<rparr>)
         demo_request ''basic'' 1700000030000)) = - 1"
    using T[where rl = "demo_limiter\<lparr>redisClient := demo_redis\<lparr>responds := (\<lambda>k. False)\<rparr>\<rparr>"
        and tierName = "''basic''" and routeTier = "''premium''"]
    by (simp add: demo_limiter_def)
  have 3: "remaining (fst (checkRateLimit
         (demo_limiter\<lparr>redisClient := demo_redis\<lparr>responds := (\<lambda>k. k = 0)\<rparr>\<rparr>)
         demo_request ''basic'' 1700000030000)) = - 1"
    using T[where rl = "demo_limiter\<lparr>redisClient := demo_redis\<lparr>responds := (\<lambda>k. k = 0)\<rparr>\<rparr>"
        and tierName = "''basic''" and routeTier = "''premium''"]
    by (simp add: demo_limiter_def demo_redis_def getTierConfig_def getRateLimitKey_def
        demo_request_def demo_window_key)
  have 4: "remaining (fst (checkRateLimit demo_limiter demo_request ''constructor'' 1700000030000)) = - 1"
    using T[where rl = demo_limiter and tierName = "''constructor''" and routeTier = "''premium''"]
    by (simp add: demo_limiter_def getTierConfig_def object_prototype_names_def)
  from 1 d1 2 3 4 show ?thesis by simp
qed

end
